theory Spec2Isabelle
  imports
    Main
    "HOL-Library.Char_ord"
    "HOL-Library.List_Lexorder"
    "HOL-Library.Product_Lexorder"
    "HOL-Library.Multiset"
begin

section \<open>Go strings (byte sequences) and the standard-library string functions used\<close>

text \<open>
  A Go \<^verbatim>\<open>string\<close> is a sequence of bytes; text is UTF-8.  It is modelled as
  \<^typ>\<open>string\<close>, a list of 8-bit characters.
\<close>

definition byte :: "char \<Rightarrow> nat" where
  "byte c = of_char c"

text \<open>\<^verbatim>\<open>strings.HasPrefix(s, prefix)\<close>.\<close>

fun HasPrefix :: "string \<Rightarrow> string \<Rightarrow> bool" where
  "HasPrefix s [] = True"
| "HasPrefix [] (p # ps) = False"
| "HasPrefix (c # cs) (p # ps) = (c = p \<and> HasPrefix cs ps)"

text \<open>\<^verbatim>\<open>strings.Contains(s, substr)\<close>: some suffix of \<open>s\<close> starts with \<open>substr\<close>.\<close>

fun Contains :: "string \<Rightarrow> string \<Rightarrow> bool" where
  "Contains [] sub = HasPrefix [] sub"
| "Contains (c # cs) sub = (HasPrefix (c # cs) sub \<or> Contains cs sub)"

text \<open>
  \<^verbatim>\<open>strings.Index(s, ";")\<close> for a one-byte separator: the position of the first
  occurrence, \<open>None\<close> where Go returns \<open>-1\<close>.
\<close>

fun IndexByte :: "string \<Rightarrow> char \<Rightarrow> nat option" where
  "IndexByte [] sep = None"
| "IndexByte (c # cs) sep =
     (if c = sep then Some 0
      else (case IndexByte cs sep of None \<Rightarrow> None | Some i \<Rightarrow> Some (Suc i)))"

text \<open>
  \<^verbatim>\<open>strings.TrimSpace\<close> removes leading and trailing white space as defined by
  Unicode (\<^verbatim>\<open>unicode.IsSpace\<close>): the six ASCII characters tab, line feed, vertical
  tab, form feed, carriage return and space; U+0085 and U+00A0 (two bytes in UTF-8,
  lead byte 0xC2); U+1680, U+2000..U+200A, U+2028, U+2029, U+202F, U+205F and U+3000
  (three bytes).  A byte that does not start one of these encodings is not white space
  (an invalid byte decodes to U+FFFD, width 1).
\<close>

definition asciiSpace :: "char \<Rightarrow> bool" where
  "asciiSpace c = (byte c = 0x09 \<or> byte c = 0x0A \<or> byte c = 0x0B \<or> byte c = 0x0C
                   \<or> byte c = 0x0D \<or> byte c = 0x20)"

definition isSpace2 :: "char \<Rightarrow> char \<Rightarrow> bool" where
  "isSpace2 a b = (byte a = 0xC2 \<and> (byte b = 0x85 \<or> byte b = 0xA0))"

definition isSpace3 :: "char \<Rightarrow> char \<Rightarrow> char \<Rightarrow> bool" where
  "isSpace3 a b c =
     ((byte a = 0xE1 \<and> byte b = 0x9A \<and> byte c = 0x80)
      \<or> (byte a = 0xE2 \<and> byte b = 0x80
          \<and> ((0x80 \<le> byte c \<and> byte c \<le> 0x8A) \<or> byte c = 0xA8 \<or> byte c = 0xA9
               \<or> byte c = 0xAF))
      \<or> (byte a = 0xE2 \<and> byte b = 0x81 \<and> byte c = 0x9F)
      \<or> (byte a = 0xE3 \<and> byte b = 0x80 \<and> byte c = 0x80))"

text \<open>Leading white space: decode runes from the front while they are white space.\<close>

fun trimLeft :: "string \<Rightarrow> string" where
  "trimLeft (a # b # c # s) =
     (if asciiSpace a then trimLeft (b # c # s)
      else if isSpace2 a b then trimLeft (c # s)
      else if isSpace3 a b c then trimLeft s
      else a # b # c # s)"
| "trimLeft [a, b] =
     (if asciiSpace a then trimLeft [b]
      else if isSpace2 a b then []
      else [a, b])"
| "trimLeft [a] = (if asciiSpace a then [] else [a])"
| "trimLeft [] = []"

text \<open>
  Trailing white space: decode runes from the back.  The argument is the reversed
  string, so the last byte of an encoding comes first.
\<close>

fun trimLeftRev :: "string \<Rightarrow> string" where
  "trimLeftRev (c # b # a # s) =
     (if asciiSpace c then trimLeftRev (b # a # s)
      else if isSpace2 b c then trimLeftRev (a # s)
      else if isSpace3 a b c then trimLeftRev s
      else c # b # a # s)"
| "trimLeftRev [c, b] =
     (if asciiSpace c then trimLeftRev [b]
      else if isSpace2 b c then []
      else [c, b])"
| "trimLeftRev [c] = (if asciiSpace c then [] else [c])"
| "trimLeftRev [] = []"

definition trimRight :: "string \<Rightarrow> string" where
  "trimRight s = rev (trimLeftRev (rev s))"

definition TrimSpace :: "string \<Rightarrow> string" where
  "TrimSpace s = trimRight (trimLeft s)"

text \<open>
  \<^verbatim>\<open>html.EscapeString\<close> escapes exactly the five characters
  \<^verbatim>\<open>< > & ' "\<close>.
\<close>

definition escapeHTMLChar :: "char \<Rightarrow> string" where
  "escapeHTMLChar c =
     (if c = CHR ''&'' then ''&amp;''
      else if byte c = 0x27 then ''&#39;''
      else if c = CHR ''<'' then ''&lt;''
      else if c = CHR ''>'' then ''&gt;''
      else if byte c = 0x22 then ''&#34;''
      else [c])"

definition EscapeString :: "string \<Rightarrow> string" where
  "EscapeString s = concat (map escapeHTMLChar s)"

text \<open>Decimal rendering of an integer, as \<^verbatim>\<open>%d\<close> prints an \<^verbatim>\<open>int64\<close>.\<close>

fun decimal :: "nat \<Rightarrow> string" where
  "decimal n =
     (if n < 10 then [char_of (48 + n)]
      else decimal (n div 10) @ [char_of (48 + n mod 10)])"

definition fmtInt :: "int \<Rightarrow> string" where
  "fmtInt i = (if i < 0 then CHR ''-'' # decimal (nat (- i)) else decimal (nat i))"

declare decimal.simps [simp del]

section \<open>HTTP requests and responses\<close>

text \<open>
  The body of a request as \<^verbatim>\<open>encoding/json\<close> sees it: the first JSON value of
  the stream.  Strings are already unescaped.
\<close>

datatype json =
    JNull
  | JBool bool
  | JNumber string
  | JString string
  | JArray "json list"
  | JObject "(string \<times> json) list"

datatype decodeError = SyntaxError | UnmarshalTypeError

datatype formError = FormError

text \<open>
  The part of \<^verbatim>\<open>*http.Request\<close> the handlers read.
  \<^item> \<open>Method\<close> and \<open>URLPath\<close> are \<^verbatim>\<open>r.Method\<close> and \<^verbatim>\<open>r.URL.Path\<close>;
  \<^item> \<open>ContentType\<close> is \<^verbatim>\<open>r.Header.Get("Content-Type")\<close>, empty when the header is
    absent;
  \<^item> \<open>Body\<close> is what the JSON decoder reads from \<^verbatim>\<open>r.Body\<close>: \<open>None\<close> when the
    stream does not start with a well-formed JSON value;
  \<^item> \<open>Form\<close> is the outcome of \<^verbatim>\<open>r.ParseForm()\<close>: an error, or \<^verbatim>\<open>r.Form\<close>, the
    values of each key (none for a key that was not sent).
\<close>

record request =
  Method :: string
  URLPath :: string
  ContentType :: string
  Body :: "json option"
  Form :: "formError + (string \<Rightarrow> string list)"

text \<open>\<^verbatim>\<open>r.FormValue(key)\<close> after \<^verbatim>\<open>ParseForm\<close>: the first value, or the empty string.\<close>

definition FormValue :: "(string \<Rightarrow> string list) \<Rightarrow> string \<Rightarrow> string" where
  "FormValue form key = (case form key of [] \<Rightarrow> [] | v # vs \<Rightarrow> v)"

text \<open>What has been written to the \<^verbatim>\<open>http.ResponseWriter\<close> when a handler returns.\<close>

record response =
  status :: nat
  headers :: "string \<rightharpoonup> string"
  body :: string

text \<open>
  \<^verbatim>\<open>http.Error(w, msg, code)\<close> on a writer whose header map is \<open>h\<close>: a plain-text
  reply, the message followed by a line feed.
\<close>

definition httpError :: "(string \<rightharpoonup> string) \<Rightarrow> string \<Rightarrow> nat \<Rightarrow> response" where
  "httpError h msg code =
     \<lparr> status = code,
       headers = (h |` (- {''Content-Length''}))
                   (''Content-Type'' \<mapsto> ''text/plain; charset=utf-8'',
                    ''X-Content-Type-Options'' \<mapsto> ''nosniff''),
       body = msg @ [CHR 0x0A] \<rparr>"

text \<open>\<^verbatim>\<open>http.NotFound\<close>.\<close>

definition NotFound :: response where
  "NotFound = httpError Map.empty ''404 page not found'' 404"

subsection \<open>JSON decoding into the request payload\<close>

text \<open>
  An object key selects the struct field whose JSON name it equals, exactly or under
  Unicode simple case folding.  For the ASCII field names here that is: letters match in
  either case, and U+212A (Kelvin sign, bytes E2 84 AA) also matches \<open>K\<close>, U+017F
  (long s, bytes C5 BF) also matches \<open>S\<close>.  The second argument is the field name in
  upper case.
\<close>

definition upperASCII :: "char \<Rightarrow> char" where
  "upperASCII c = (if 0x61 \<le> byte c \<and> byte c \<le> 0x7A then char_of (byte c - 0x20) else c)"

fun foldMatches :: "string \<Rightarrow> string \<Rightarrow> bool" where
  "foldMatches [] [] = True"
| "foldMatches (k # ks) (n # ns) =
     (if upperASCII k = n then foldMatches ks ns
      else if n = CHR ''K'' \<and> HasPrefix (k # ks) [CHR 0xE2, CHR 0x84, CHR 0xAA]
        then foldMatches (drop 2 ks) ns
      else if n = CHR ''S'' \<and> HasPrefix (k # ks) [CHR 0xC5, CHR 0xBF]
        then foldMatches (drop 1 ks) ns
      else False)"
| "foldMatches [] (n # ns) = False"
| "foldMatches (k # ks) [] = False"

text \<open>
  Storing a JSON value into a Go \<^verbatim>\<open>string\<close> field: a string is stored, \<^verbatim>\<open>null\<close>
  leaves the field as it is, anything else is an \<^verbatim>\<open>UnmarshalTypeError\<close> (\<open>None\<close>).
\<close>

fun storeString :: "json \<Rightarrow> string \<Rightarrow> string option" where
  "storeString (JString s) old = Some s"
| "storeString JNull old = Some old"
| "storeString v old = None"

text \<open>
  \<^verbatim>\<open>waitlistRequest\<close>: the expected JSON payload, fields \<^verbatim>\<open>email\<close> and
  \<^verbatim>\<open>nickname\<close>.
\<close>

record waitlistRequest =
  Email :: string
  Trap :: string

text \<open>
  The members of an object are stored in order (a later duplicate overwrites an earlier
  one).  A type error does not stop the decoder: the first one is remembered (the
  flag) and reported at the end.
\<close>

fun decodeMembers :: "(string \<times> json) list \<Rightarrow> bool \<times> waitlistRequest \<Rightarrow> bool \<times> waitlistRequest" where
  "decodeMembers [] st = st"
| "decodeMembers ((k, v) # ms) (failed, p) =
     (if foldMatches k ''EMAIL'' then
        (case storeString v (Email p) of
           Some s \<Rightarrow> decodeMembers ms (failed, p\<lparr>Email := s\<rparr>)
         | None \<Rightarrow> decodeMembers ms (True, p))
      else if foldMatches k ''NICKNAME'' then
        (case storeString v (Trap p) of
           Some s \<Rightarrow> decodeMembers ms (failed, p\<lparr>Trap := s\<rparr>)
         | None \<Rightarrow> decodeMembers ms (True, p))
      else decodeMembers ms (failed, p))"

text \<open>\<^verbatim>\<open>json.NewDecoder(r.Body).Decode(&payload)\<close>, \<open>payload\<close> starting as the zero value.\<close>

fun Decode :: "json option \<Rightarrow> decodeError + waitlistRequest" where
  "Decode None = Inl SyntaxError"
| "Decode (Some JNull) = Inr \<lparr>Email = [], Trap = []\<rparr>"
| "Decode (Some (JObject ms)) =
     (case decodeMembers ms (False, \<lparr>Email = [], Trap = []\<rparr>) of
        (True, p) \<Rightarrow> Inl UnmarshalTypeError
      | (False, p) \<Rightarrow> Inr p)"
| "Decode (Some v) = Inl UnmarshalTypeError"

subsection \<open>Writing a message\<close>

text \<open>
  \<^verbatim>\<open>json.NewEncoder(w).Encode(map[string]string{"message": message})\<close> writes the
  object on one line.  The string is quoted with the encoder's escapes: quote and
  backslash, the control characters, and (HTML-safe mode, the default) \<^verbatim>\<open>< > &\<close>.
  Bytes from 0x80 on are copied: the messages of this program are ASCII literals.
\<close>

definition hexDigit :: "nat \<Rightarrow> char" where
  "hexDigit n = (if n < 10 then char_of (48 + n) else char_of (87 + n))"

definition escapeJSONChar :: "char \<Rightarrow> string" where
  "escapeJSONChar c =
     (if byte c = 0x22 then [CHR 0x5C, CHR 0x22]
      else if byte c = 0x5C then [CHR 0x5C, CHR 0x5C]
      else if byte c = 0x08 then [CHR 0x5C, CHR ''b'']
      else if byte c = 0x0C then [CHR 0x5C, CHR ''f'']
      else if byte c = 0x0A then [CHR 0x5C, CHR ''n'']
      else if byte c = 0x0D then [CHR 0x5C, CHR ''r'']
      else if byte c = 0x09 then [CHR 0x5C, CHR ''t'']
      else if byte c < 0x20 \<or> c = CHR ''<'' \<or> c = CHR ''>'' \<or> c = CHR ''&''
        then [CHR 0x5C, CHR ''u'', CHR ''0'', CHR ''0'', hexDigit (byte c div 16), hexDigit (byte c mod 16)]
      else [c])"

definition jsonQuote :: "string \<Rightarrow> string" where
  "jsonQuote s = [CHR 0x22] @ concat (map escapeJSONChar s) @ [CHR 0x22]"

definition jsonMessage :: "string \<Rightarrow> string" where
  "jsonMessage message =
     ''{'' @ jsonQuote ''message'' @ '':'' @ jsonQuote message @ ''}'' @ [CHR 0x0A]"

definition htmlHead :: string where
  "htmlHead =
     ''<!DOCTYPE html><html lang='' @ [CHR 0x22] @ ''en'' @ [CHR 0x22] @ ''><head><meta charset=''
     @ [CHR 0x22] @ ''utf-8'' @ [CHR 0x22]
     @ ''><title>Waitlist</title></head><body><main><h1>Waitlist</h1><p>''"

definition htmlTail :: string where
  "htmlTail =
     ''</p><p><a href='' @ [CHR 0x22] @ ''/'' @ [CHR 0x22]
     @ ''>Back to form</a></p></main></body></html>''"

definition htmlPage :: "string \<Rightarrow> string" where
  "htmlPage message = htmlHead @ EscapeString message @ htmlTail"

definition writeMessage :: "nat \<Rightarrow> string \<Rightarrow> bool \<Rightarrow> response" where
  "writeMessage code message htmlPreferred =
     (if htmlPreferred then
        \<lparr> status = code,
          headers = [''Content-Type'' \<mapsto> ''text/html; charset=utf-8''],
          body = htmlPage message \<rparr>
      else
        \<lparr> status = code,
          headers = [''Content-Type'' \<mapsto> ''application/json''],
          body = jsonMessage message \<rparr>)"

section \<open>Storage\<close>

text \<open>
  A value of \<^verbatim>\<open>CURRENT_TIMESTAMP\<close>: a UTC date and time of day, in whole seconds.
\<close>

record timestamp =
  ts_year :: nat
  ts_month :: nat
  ts_day :: nat
  ts_hour :: nat
  ts_minute :: nat
  ts_second :: nat

definition zeroPad :: "nat \<Rightarrow> nat \<Rightarrow> string" where
  "zeroPad width n = replicate (width - length (decimal n)) (CHR ''0'') @ decimal n"

definition dateText :: "timestamp \<Rightarrow> string" where
  "dateText t = zeroPad 4 (ts_year t) @ ''-'' @ zeroPad 2 (ts_month t) @ ''-'' @ zeroPad 2 (ts_day t)"

definition timeText :: "timestamp \<Rightarrow> string" where
  "timeText t = zeroPad 2 (ts_hour t) @ '':'' @ zeroPad 2 (ts_minute t) @ '':'' @ zeroPad 2 (ts_second t)"

text \<open>
  The text SQLite stores in the column: \<^verbatim>\<open>YYYY-MM-DD HH:MM:SS\<close>.  \<^verbatim>\<open>ORDER BY\<close>
  compares these texts byte by byte: the order of \<^typ>\<open>string\<close> used below.
\<close>

definition storedText :: "timestamp \<Rightarrow> string" where
  "storedText t = dateText t @ '' '' @ timeText t"

definition leapYear :: "nat \<Rightarrow> bool" where
  "leapYear y = (y mod 4 = 0 \<and> (y mod 100 \<noteq> 0 \<or> y mod 400 = 0))"

definition daysIn :: "nat \<Rightarrow> nat \<Rightarrow> nat" where
  "daysIn y m =
     (if m = 2 then (if leapYear y then 29 else 28)
      else if m = 4 \<or> m = 6 \<or> m = 9 \<or> m = 11 then 30
      else 31)"

definition validTimestamp :: "timestamp \<Rightarrow> bool" where
  "validTimestamp t =
     (ts_year t \<le> 9999 \<and> 1 \<le> ts_month t \<and> ts_month t \<le> 12
      \<and> 1 \<le> ts_day t \<and> ts_day t \<le> daysIn (ts_year t) (ts_month t)
      \<and> ts_hour t < 24 \<and> ts_minute t < 60 \<and> ts_second t < 60)"

text \<open>
  What \<^verbatim>\<open>rows.Scan\<close> puts into the Go string \<^verbatim>\<open>created\<close>.  The column is declared
  \<^verbatim>\<open>TIMESTAMP\<close>: the driver reads the stored text as a \<^verbatim>\<open>time.Time\<close> (UTC), and
  \<^verbatim>\<open>database/sql\<close> converts a \<^verbatim>\<open>time.Time\<close> to a string in the RFC 3339 layout,
  \<^verbatim>\<open>YYYY-MM-DDTHH:MM:SSZ\<close>.  A text that is not a date and time is handed over as
  stored.
\<close>

definition scannedText :: "timestamp \<Rightarrow> string" where
  "scannedText t =
     (if validTimestamp t then dateText t @ ''T'' @ timeText t @ ''Z'' else storedText t)"

text \<open>The two tables of the schema.\<close>

record waitlistEntry =
  w_id :: int
  w_email :: string
  w_created_at :: timestamp

record honeypotEntry =
  h_id :: int
  h_email :: string
  h_trap_value :: string
  h_created_at :: timestamp

text \<open>
  A database: each table is absent (\<open>None\<close>) until the schema statement has created
  it, and then holds its rows in insertion order.  Both tables are declared
  \<^verbatim>\<open>AUTOINCREMENT\<close>: for each, SQLite keeps in \<^verbatim>\<open>sqlite_sequence\<close> the largest id
  the table has ever used (0 before the first insert).
\<close>

record database =
  waitlist :: "waitlistEntry list option"
  waitlist_sequence :: int
  waitlist_honeypot :: "honeypotEntry list option"
  waitlist_honeypot_sequence :: int

definition emptyDatabase :: database where
  "emptyDatabase =
     \<lparr> waitlist = None, waitlist_sequence = 0,
       waitlist_honeypot = None, waitlist_honeypot_sequence = 0 \<rparr>"

text \<open>The storage operations the program performs; each can fail for reasons outside it.\<close>

datatype storageOp = OpStat | OpOpen | OpPing | OpExecSchema | OpQuery | OpScan | OpRowsErr | OpFlush | OpInsert

text \<open>
  What the program takes from its surroundings:
  \<^item> \<open>ParseAddress\<close>: whether \<^verbatim>\<open>mail.ParseAddress\<close> accepts a string (returns no error);
  \<^item> \<open>currentTimestamp\<close>: the value of \<^verbatim>\<open>CURRENT_TIMESTAMP\<close> at an insert;
  \<^item> \<open>fault\<close>: the error text of a storage operation that fails for an outside reason
    (disk, locking, cancelled request, permissions), \<open>None\<close> when it does not;
  \<^item> \<open>LookupEnv\<close>: the process environment.
\<close>

record env =
  ParseAddress :: "string \<Rightarrow> bool"
  currentTimestamp :: timestamp
  fault :: "storageOp \<Rightarrow> string option"
  LookupEnv :: "string \<Rightarrow> string option"

text \<open>
  \<^verbatim>\<open>INTEGER PRIMARY KEY AUTOINCREMENT\<close>.  The id of a new row is one above the
  largest id in the table (1 for an empty table), and at least one above the largest id
  ever used.  Ids are 64-bit: when the largest id in the table or the largest id ever
  used is \<open>2^63 - 1\<close>, no id is left and the insert fails with \<^verbatim>\<open>SQLITE_FULL\<close>
  (\<open>None\<close>).
\<close>

definition MAX_ROWID :: int where
  "MAX_ROWID = 9223372036854775807"

fun lastRowid :: "int list \<Rightarrow> int option" where
  "lastRowid [] = None"
| "lastRowid (i # ids) = Some (case lastRowid ids of None \<Rightarrow> i | Some m \<Rightarrow> max i m)"

definition newRowid :: "int list \<Rightarrow> int \<Rightarrow> int option" where
  "newRowid ids largestEver =
     (case lastRowid ids of
        None \<Rightarrow>
          if largestEver = MAX_ROWID then None else Some (max 1 (largestEver + 1))
      | Some m \<Rightarrow>
          if MAX_ROWID \<le> m \<or> largestEver = MAX_ROWID then None
          else Some (max (m + 1) (largestEver + 1)))"

definition uniqueViolation :: string where
  "uniqueViolation = ''constraint failed: UNIQUE constraint failed: waitlist.email (2067)''"

definition noSuchTable :: "string \<Rightarrow> string" where
  "noSuchTable t = ''SQL logic error: no such table: '' @ t @ '' (1)''"

definition databaseFull :: string where
  "databaseFull = ''database or disk is full (13)''"

text \<open>
  \<^verbatim>\<open>INSERT INTO waitlist(email) VALUES (?)\<close>: the returned error (\<open>None\<close> for
  \<^verbatim>\<open>nil\<close>) and the database afterwards.  The id is chosen first; the column
  \<^verbatim>\<open>email\<close> is \<^verbatim>\<open>UNIQUE\<close>; a failed statement changes nothing.
\<close>

definition insertWaitlist :: "env \<Rightarrow> database \<Rightarrow> string \<Rightarrow> string option \<times> database" where
  "insertWaitlist e db email =
     (case fault e OpInsert of
        Some err \<Rightarrow> (Some err, db)
      | None \<Rightarrow>
         (case waitlist db of
            None \<Rightarrow> (Some (noSuchTable ''waitlist''), db)
          | Some rows \<Rightarrow>
             (case newRowid (map w_id rows) (waitlist_sequence db) of
                None \<Rightarrow> (Some databaseFull, db)
              | Some i \<Rightarrow>
                 if email \<in> set (map w_email rows) then (Some uniqueViolation, db)
                 else (None, db\<lparr> waitlist := Some (rows @
                         [\<lparr> w_id = i, w_email = email,
                            w_created_at = currentTimestamp e \<rparr>]),
                       waitlist_sequence := i \<rparr>))))"

text \<open>\<^verbatim>\<open>INSERT INTO waitlist_honeypot(email, trap_value) VALUES (?, ?)\<close>.\<close>

definition insertHoneypot :: "env \<Rightarrow> database \<Rightarrow> string \<Rightarrow> string \<Rightarrow> string option \<times> database" where
  "insertHoneypot e db email trapValue =
     (case fault e OpInsert of
        Some err \<Rightarrow> (Some err, db)
      | None \<Rightarrow>
         (case waitlist_honeypot db of
            None \<Rightarrow> (Some (noSuchTable ''waitlist_honeypot''), db)
          | Some rows \<Rightarrow>
             (case newRowid (map h_id rows) (waitlist_honeypot_sequence db) of
                None \<Rightarrow> (Some databaseFull, db)
              | Some i \<Rightarrow>
                 (None, db\<lparr> waitlist_honeypot := Some (rows @
                         [\<lparr> h_id = i, h_email = email,
                            h_trap_value = trapValue,
                            h_created_at = currentTimestamp e \<rparr>]),
                       waitlist_honeypot_sequence := i \<rparr>))))"

definition isUniqueConstraint :: "string \<Rightarrow> bool" where
  "isUniqueConstraint err = Contains err ''UNIQUE constraint failed''"

text \<open>
  The schema statement: \<^verbatim>\<open>CREATE TABLE IF NOT EXISTS\<close> for both tables.  An
  existing table keeps its rows.
\<close>

definition execSchema :: "database \<Rightarrow> database" where
  "execSchema db =
     \<lparr> waitlist = Some (case waitlist db of None \<Rightarrow> [] | Some rows \<Rightarrow> rows),
       waitlist_sequence = waitlist_sequence db,
       waitlist_honeypot = Some (case waitlist_honeypot db of None \<Rightarrow> [] | Some rows \<Rightarrow> rows),
       waitlist_honeypot_sequence = waitlist_honeypot_sequence db \<rparr>"

text \<open>\<^verbatim>\<open>initializeDatabase\<close>: ping, then the schema statement.\<close>

definition initializeDatabase :: "env \<Rightarrow> database \<Rightarrow> string + database" where
  "initializeDatabase e db =
     (case fault e OpPing of
        Some err \<Rightarrow> Inl err
      | None \<Rightarrow>
         (case fault e OpExecSchema of
            Some err \<Rightarrow> Inl err
          | None \<Rightarrow> Inr (execSchema db)))"

section \<open>The submission handler\<close>

text \<open>
  \<^verbatim>\<open>isJSON\<close>: the Content-Type header, cut at the first \<^verbatim>\<open>;\<close> and then trimmed
  when there is one, equals \<^verbatim>\<open>application/json\<close>.
\<close>

definition isJSON :: "request \<Rightarrow> bool" where
  "isJSON r =
     (let contentType = ContentType r;
          contentType = (case IndexByte contentType (CHR '';'') of
                           Some idx \<Rightarrow> TrimSpace (take idx contentType)
                         | None \<Rightarrow> contentType)
      in contentType = ''application/json'')"

text \<open>
  The \<^verbatim>\<open>switch\<close> that reads \<open>email\<close> and \<open>trapValue\<close> from the body: the reply of
  a failed parse, or the two values.
\<close>

definition readFields :: "request \<Rightarrow> response + (string \<times> string)" where
  "readFields r =
     (if isJSON r then
        (case Decode (Body r) of
           Inl err \<Rightarrow> Inl (writeMessage 400 ''invalid JSON body'' False)
         | Inr payload \<Rightarrow> Inr (Email payload, Trap payload))
      else
        (case Form r of
           Inl err \<Rightarrow> Inl (writeMessage 400 ''invalid form data'' True)
         | Inr form \<Rightarrow> Inr (FormValue form ''email'', FormValue form ''nickname'')))"

text \<open>
  \<^verbatim>\<open>(*server).waitlistHandler\<close>.  The result is the response, the database
  afterwards and the lines written to the server log.
\<close>

definition waitlistHandler :: "env \<Rightarrow> database \<Rightarrow> request \<Rightarrow> response \<times> database \<times> string list" where
  "waitlistHandler e db r =
     (if Method r \<noteq> ''POST'' then
        (httpError [''Allow'' \<mapsto> ''POST''] ''method not allowed'' 405, db, [])
      else
        (case readFields r of
           Inl resp \<Rightarrow> (resp, db, [])
         | Inr (email0, trapValue0) \<Rightarrow>
            (let email = TrimSpace email0; trapValue = TrimSpace trapValue0 in
             if trapValue \<noteq> [] then
               (case insertHoneypot e db email trapValue of
                  (Some err, db') \<Rightarrow>
                    (writeMessage 500 ''internal server error'' (\<not> isJSON r), db',
                     [''failed to insert honeypot entry: '' @ err])
                | (None, db') \<Rightarrow>
                    (writeMessage 201 ''email accepted for waitlist'' (\<not> isJSON r), db', []))
             else if email = [] then
               (writeMessage 400 ''email is required'' (\<not> isJSON r), db, [])
             else if \<not> ParseAddress e email then
               (writeMessage 400 ''invalid email address'' (\<not> isJSON r), db, [])
             else
               (case insertWaitlist e db email of
                  (Some err, db') \<Rightarrow>
                    if isUniqueConstraint err then
                      (writeMessage 409 ''email already registered'' (\<not> isJSON r), db', [])
                    else
                      (writeMessage 500 ''internal server error'' (\<not> isJSON r), db',
                       [''failed to insert email: '' @ err])
                | (None, db') \<Rightarrow>
                    (writeMessage 201 ''email accepted for waitlist'' (\<not> isJSON r), db', [])))))"

subsection \<open>The revision before the honeypot\<close>

text \<open>
  The earlier \<^verbatim>\<open>waitlistRequest\<close> has the field \<^verbatim>\<open>email\<close> only; every other key of
  the object is skipped.
\<close>

record waitlistRequest_prev =
  Email_prev :: string

fun decodeMembers_prev :: "(string \<times> json) list \<Rightarrow> bool \<times> waitlistRequest_prev \<Rightarrow> bool \<times> waitlistRequest_prev" where
  "decodeMembers_prev [] st = st"
| "decodeMembers_prev ((k, v) # ms) (failed, p) =
     (if foldMatches k ''EMAIL'' then
        (case storeString v (Email_prev p) of
           Some s \<Rightarrow> decodeMembers_prev ms (failed, p\<lparr>Email_prev := s\<rparr>)
         | None \<Rightarrow> decodeMembers_prev ms (True, p))
      else decodeMembers_prev ms (failed, p))"

fun Decode_prev :: "json option \<Rightarrow> decodeError + waitlistRequest_prev" where
  "Decode_prev None = Inl SyntaxError"
| "Decode_prev (Some JNull) = Inr \<lparr>Email_prev = []\<rparr>"
| "Decode_prev (Some (JObject ms)) =
     (case decodeMembers_prev ms (False, \<lparr>Email_prev = []\<rparr>) of
        (True, p) \<Rightarrow> Inl UnmarshalTypeError
      | (False, p) \<Rightarrow> Inr p)"
| "Decode_prev (Some v) = Inl UnmarshalTypeError"

definition readFields_prev :: "request \<Rightarrow> response + string" where
  "readFields_prev r =
     (if isJSON r then
        (case Decode_prev (Body r) of
           Inl err \<Rightarrow> Inl (writeMessage 400 ''invalid JSON body'' False)
         | Inr payload \<Rightarrow> Inr (Email_prev payload))
      else
        (case Form r of
           Inl err \<Rightarrow> Inl (writeMessage 400 ''invalid form data'' True)
         | Inr form \<Rightarrow> Inr (FormValue form ''email'')))"

definition waitlistHandler_prev :: "env \<Rightarrow> database \<Rightarrow> request \<Rightarrow> response \<times> database \<times> string list" where
  "waitlistHandler_prev e db r =
     (if Method r \<noteq> ''POST'' then
        (httpError [''Allow'' \<mapsto> ''POST''] ''method not allowed'' 405, db, [])
      else
        (case readFields_prev r of
           Inl resp \<Rightarrow> (resp, db, [])
         | Inr email0 \<Rightarrow>
            (let email = TrimSpace email0 in
             if email = [] then
               (writeMessage 400 ''email is required'' (\<not> isJSON r), db, [])
             else if \<not> ParseAddress e email then
               (writeMessage 400 ''invalid email address'' (\<not> isJSON r), db, [])
             else
               (case insertWaitlist e db email of
                  (Some err, db') \<Rightarrow>
                    if isUniqueConstraint err then
                      (writeMessage 409 ''email already registered'' (\<not> isJSON r), db', [])
                    else
                      (writeMessage 500 ''internal server error'' (\<not> isJSON r), db',
                       [''failed to insert email: '' @ err])
                | (None, db') \<Rightarrow>
                    (writeMessage 201 ''email accepted for waitlist'' (\<not> isJSON r), db', [])))))"

section \<open>The root handler and the routing of the server\<close>

text \<open>
  What a handler of the server leaves behind: a written response, a file handed to
  \<^verbatim>\<open>http.ServeFile\<close>, or the multiplexer's permanent redirect to another path.
\<close>

datatype handlerResult = Written response | ServedFile string | Redirected string

definition serveIndex :: "request \<Rightarrow> handlerResult" where
  "serveIndex r =
     (if URLPath r \<noteq> ''/'' then Written NotFound
      else if Method r \<noteq> ''GET'' then
        Written (httpError [''Allow'' \<mapsto> ''GET''] ''method not allowed'' 405)
      else ServedFile ''index.html'')"

text \<open>
  \<^verbatim>\<open>http.ServeMux\<close>.  A request path is first brought to canonical form
  (\<^verbatim>\<open>cleanPath\<close>: empty elements, \<^verbatim>\<open>.\<close> and \<^verbatim>\<open>..\<close> removed, a trailing slash
  kept); a path that is not canonical is redirected.
\<close>

fun splitOn :: "char \<Rightarrow> string \<Rightarrow> string list" where
  "splitOn sep [] = [[]]"
| "splitOn sep (c # cs) =
     (if c = sep then [] # splitOn sep cs
      else (case splitOn sep cs of [] \<Rightarrow> [[c]] | x # xs \<Rightarrow> (c # x) # xs))"

fun cleanElems :: "string list \<Rightarrow> string list \<Rightarrow> string list" where
  "cleanElems [] kept = rev kept"
| "cleanElems (x # xs) kept =
     (if x = [] \<or> x = ''.'' then cleanElems xs kept
      else if x = ''..'' then cleanElems xs (tl kept)
      else cleanElems xs (x # kept))"

fun joinPath :: "string list \<Rightarrow> string" where
  "joinPath [] = []"
| "joinPath [x] = x"
| "joinPath (x # y # ys) = x @ ''/'' @ joinPath (y # ys)"

definition cleanPath :: "string \<Rightarrow> string" where
  "cleanPath p0 =
     (if p0 = [] then ''/''
      else
        (let p = (if hd p0 \<noteq> CHR ''/'' then CHR ''/'' # p0 else p0);
             np = ''/'' @ joinPath (cleanElems (splitOn (CHR ''/'') p) [])
         in if last p = CHR ''/'' \<and> np \<noteq> ''/'' then np @ ''/'' else np))"

datatype route = RouteWaitlist | RouteIndex

datatype muxResult = MuxHandler route | MuxRedirect string | MuxNotFound

text \<open>
  \<^verbatim>\<open>(*ServeMux).match\<close>: an exact pattern first, then the longest pattern ending in
  a slash that is a prefix of the path.
\<close>

definition muxMatch :: "(string \<times> route) list \<Rightarrow> string \<Rightarrow> muxResult" where
  "muxMatch pats path =
     (case map_of pats path of
        Some h \<Rightarrow> MuxHandler h
      | None \<Rightarrow>
         (case filter (\<lambda>(p, h). p \<noteq> [] \<and> last p = CHR ''/'' \<and> HasPrefix path p) pats of
            [] \<Rightarrow> MuxNotFound
          | c # cs \<Rightarrow>
             MuxHandler (snd (foldl (\<lambda>best x. if length (fst best) < length (fst x) then x else best) c cs))))"

definition redirectToPathSlash :: "(string \<times> route) list \<Rightarrow> string \<Rightarrow> bool" where
  "redirectToPathSlash pats path =
     (path \<notin> set (map fst pats) \<and> path \<noteq> [] \<and> (path @ ''/'') \<in> set (map fst pats))"

definition muxHandler :: "(string \<times> route) list \<Rightarrow> request \<Rightarrow> muxResult" where
  "muxHandler pats r =
     (if Method r = ''CONNECT'' then
        (if redirectToPathSlash pats (URLPath r) then MuxRedirect (URLPath r @ ''/'')
         else muxMatch pats (URLPath r))
      else
        (let path = cleanPath (URLPath r) in
         if redirectToPathSlash pats path then MuxRedirect (path @ ''/'')
         else if path \<noteq> URLPath r then MuxRedirect path
         else muxMatch pats (URLPath r)))"

text \<open>
  The patterns \<^verbatim>\<open>runAPIServer\<close> registers: the honeypot revision registers the
  API route only; the revision before it registers the root handler as well.
\<close>

definition runAPIServer_routes :: "(string \<times> route) list" where
  "runAPIServer_routes = [(''/api/v1/waitlist'', RouteWaitlist)]"

definition runAPIServer_routes_prev :: "(string \<times> route) list" where
  "runAPIServer_routes_prev = [(''/'', RouteIndex), (''/api/v1/waitlist'', RouteWaitlist)]"

text \<open>One request served by the running server of \<^verbatim>\<open>runAPIServer\<close>.\<close>

definition serveRequest :: "(string \<times> route) list \<Rightarrow> env \<Rightarrow> database \<Rightarrow> request
    \<Rightarrow> handlerResult \<times> database \<times> string list" where
  "serveRequest pats e db r =
     (case muxHandler pats r of
        MuxHandler RouteWaitlist \<Rightarrow>
          (case waitlistHandler e db r of (resp, db', logged) \<Rightarrow> (Written resp, db', logged))
      | MuxHandler RouteIndex \<Rightarrow> (serveIndex r, db, [])
      | MuxRedirect u \<Rightarrow> (Redirected u, db, [])
      | MuxNotFound \<Rightarrow> (Written NotFound, db, []))"

section \<open>The listing routine\<close>

datatype listError =
    DatabaseFileNotFound string
  | StatDatabase string
  | OpenDatabase string
  | InitializeDatabase string
  | QueryFailed string string
  | ScanRow string
  | IterateRows string
  | FlushOutput string

definition databasePath :: "env \<Rightarrow> string" where
  "databasePath e =
     (case LookupEnv e ''DATABASE_PATH'' of
        Some path \<Rightarrow> if path \<noteq> [] then path else ''waitlist.db''
      | None \<Rightarrow> ''waitlist.db'')"

definition resolveDatabasePath :: "env \<Rightarrow> string \<Rightarrow> string" where
  "resolveDatabasePath e override = (if override \<noteq> [] then override else databasePath e)"

text \<open>
  The database files, by data source name.  Opening a name that has no file gives an
  empty database (SQLite creates the file on the first write); \<^verbatim>\<open>:memory:\<close> is
  always a fresh database and is never stored.
\<close>

definition openDatabase :: "(string \<rightharpoonup> database) \<Rightarrow> string \<Rightarrow> database" where
  "openDatabase files dbPath =
     (if dbPath = '':memory:'' then emptyDatabase
      else (case files dbPath of None \<Rightarrow> emptyDatabase | Some db \<Rightarrow> db))"

definition storeDatabase :: "(string \<rightharpoonup> database) \<Rightarrow> string \<Rightarrow> database \<Rightarrow> (string \<rightharpoonup> database)" where
  "storeDatabase files dbPath db =
     (if dbPath = '':memory:'' then files else files(dbPath \<mapsto> db))"

definition TAB :: char where
  "TAB = CHR 0x09"

definition LF :: char where
  "LF = CHR 0x0A"

definition waitlistHeader :: string where
  "waitlistHeader = ''ID'' @ [TAB] @ ''Email'' @ [TAB] @ ''Created At'' @ [LF]"

definition honeypotHeader :: string where
  "honeypotHeader =
     ''ID'' @ [TAB] @ ''Email'' @ [TAB] @ ''Trap Value'' @ [TAB] @ ''Created At'' @ [LF]"

definition waitlistPlaceholder :: string where
  "waitlistPlaceholder = ''(no entries)'' @ [TAB, TAB] @ [LF]"

definition honeypotPlaceholder :: string where
  "honeypotPlaceholder = ''(no honeypot entries)'' @ [TAB, TAB, TAB] @ [LF]"

definition waitlistLine :: "waitlistEntry \<Rightarrow> string" where
  "waitlistLine x =
     fmtInt (w_id x) @ [TAB] @ w_email x @ [TAB] @ scannedText (w_created_at x) @ [LF]"

definition honeypotLine :: "honeypotEntry \<Rightarrow> string" where
  "honeypotLine x =
     fmtInt (h_id x) @ [TAB] @ h_email x @ [TAB] @ h_trap_value x @ [TAB]
       @ scannedText (h_created_at x) @ [LF]"

text \<open>
  \<^verbatim>\<open>SELECT ... ORDER BY created_at ASC, id ASC\<close> on each table: \<open>None\<close> when the
  table does not exist.
\<close>

definition queryWaitlist :: "database \<Rightarrow> waitlistEntry list option" where
  "queryWaitlist db =
     map_option (sort_key (\<lambda>x. (storedText (w_created_at x), w_id x))) (waitlist db)"

definition queryHoneypot :: "database \<Rightarrow> honeypotEntry list option" where
  "queryHoneypot db =
     map_option (sort_key (\<lambda>x. (storedText (h_created_at x), h_id x))) (waitlist_honeypot db)"

text \<open>
  The part of \<^verbatim>\<open>listWaitlistEntries\<close> after the query: the header, one line per row
  (\<open>lines\<close>, already formatted), the placeholder when no row was counted, and the
  flush.  The result is the sequence of lines written to the \<^verbatim>\<open>tabwriter\<close>, which
  are its cells separated by tabs; the padding the \<^verbatim>\<open>tabwriter\<close> then puts in place
  of the tabs is not modelled.
\<close>

definition printRows :: "env \<Rightarrow> string \<Rightarrow> string list \<Rightarrow> string \<Rightarrow> listError + string list" where
  "printRows e header lines placeholder =
     (case (if lines = [] then None else fault e OpScan) of
        Some err \<Rightarrow> Inl (ScanRow err)
      | None \<Rightarrow>
         (case fault e OpRowsErr of
            Some err \<Rightarrow> Inl (IterateRows err)
          | None \<Rightarrow>
             (let count = length lines;
                  written = [header] @ lines @ (if count = 0 then [placeholder] else [])
              in case fault e OpFlush of
                   Some err \<Rightarrow> Inl (FlushOutput err)
                 | None \<Rightarrow> Inr written)))"

definition queryAndPrint :: "env \<Rightarrow> database \<Rightarrow> bool \<Rightarrow> listError + string list" where
  "queryAndPrint e db honeypotOnly =
     (if honeypotOnly then
        (case fault e OpQuery of
           Some err \<Rightarrow> Inl (QueryFailed ''honeypot'' err)
         | None \<Rightarrow>
            (case queryHoneypot db of
               None \<Rightarrow> Inl (QueryFailed ''honeypot'' (noSuchTable ''waitlist_honeypot''))
             | Some rows \<Rightarrow> printRows e honeypotHeader (map honeypotLine rows) honeypotPlaceholder))
      else
        (case fault e OpQuery of
           Some err \<Rightarrow> Inl (QueryFailed ''waitlist'' err)
         | None \<Rightarrow>
            (case queryWaitlist db of
               None \<Rightarrow> Inl (QueryFailed ''waitlist'' (noSuchTable ''waitlist''))
             | Some rows \<Rightarrow> printRows e waitlistHeader (map waitlistLine rows) waitlistPlaceholder)))"

text \<open>
  \<^verbatim>\<open>listWaitlistEntries(dbPathOverride, out, honeypotOnly)\<close>: the error or the lines
  written, and the database files afterwards.
\<close>

definition listWaitlistEntries :: "env \<Rightarrow> (string \<rightharpoonup> database) \<Rightarrow> string \<Rightarrow> bool
    \<Rightarrow> (listError + string list) \<times> (string \<rightharpoonup> database)" where
  "listWaitlistEntries e files dbPathOverride honeypotOnly =
     (let dbPath = resolveDatabasePath e dbPathOverride in
      case (if dbPath \<noteq> '':memory:'' \<and> \<not> HasPrefix dbPath ''file:'' then
              (case fault e OpStat of
                 Some err \<Rightarrow> Some (StatDatabase err)
               | None \<Rightarrow> if files dbPath = None then Some (DatabaseFileNotFound dbPath) else None)
            else None) of
        Some err \<Rightarrow> (Inl err, files)
      | None \<Rightarrow>
         (case fault e OpOpen of
            Some err \<Rightarrow> (Inl (OpenDatabase err), files)
          | None \<Rightarrow>
             (case initializeDatabase e (openDatabase files dbPath) of
                Inl err \<Rightarrow> (Inl (InitializeDatabase err), files)
              | Inr db \<Rightarrow> (queryAndPrint e db honeypotOnly, storeDatabase files dbPath db))))"

text \<open>The number of tab-separated cells of a line.\<close>

definition columnCount :: "string \<Rightarrow> nat" where
  "columnCount line = Suc (count_list line TAB)"

section \<open>Predicates the properties are stated with\<close>

text \<open>\<^verbatim>\<open>strings.HasSuffix\<close>.\<close>

definition HasSuffix :: "string \<Rightarrow> string \<Rightarrow> bool" where
  "HasSuffix s suffix = HasPrefix (rev s) (rev suffix)"

text \<open>
  A JSON-shaped response: declared as \<^verbatim>\<open>application/json\<close>, the body an object with
  the one key \<^verbatim>\<open>message\<close> and a string value, on one line.
\<close>

definition jsonOpening :: string where
  "jsonOpening = ''{'' @ jsonQuote ''message'' @ '':'' @ [CHR 0x22]"

definition jsonClosing :: string where
  "jsonClosing = [CHR 0x22] @ ''}'' @ [LF]"

definition jsonShaped :: "response \<Rightarrow> bool" where
  "jsonShaped resp =
     (headers resp ''Content-Type'' = Some ''application/json''
      \<and> length jsonOpening + length jsonClosing \<le> length (body resp)
      \<and> HasPrefix (body resp) jsonOpening \<and> HasSuffix (body resp) jsonClosing)"

text \<open>
  An HTML-shaped response: declared as \<^verbatim>\<open>text/html\<close>, the body the page of
  \<^verbatim>\<open>writeMessage\<close> around some text.
\<close>

definition htmlShaped :: "response \<Rightarrow> bool" where
  "htmlShaped resp =
     (headers resp ''Content-Type'' = Some ''text/html; charset=utf-8''
      \<and> length htmlHead + length htmlTail \<le> length (body resp)
      \<and> HasPrefix (body resp) htmlHead \<and> HasSuffix (body resp) htmlTail)"

text \<open>
  A request whose trap field is absent or blank.  In a form, the value
  \<^verbatim>\<open>FormValue("nickname")\<close> reads (empty when the key was not sent) trims to the
  empty string.  In a JSON object, every member whose key selects the field
  \<^verbatim>\<open>nickname\<close> is \<^verbatim>\<open>null\<close> or a string that trims to the empty string.
\<close>

definition blankValue :: "json \<Rightarrow> bool" where
  "blankValue v = (case v of JNull \<Rightarrow> True | JString s \<Rightarrow> TrimSpace s = [] | _ \<Rightarrow> False)"

definition trapAbsentOrBlank :: "request \<Rightarrow> bool" where
  "trapAbsentOrBlank r =
     (if isJSON r then
        (case Body r of
           Some (JObject ms) \<Rightarrow>
             list_all (\<lambda>(k, v). foldMatches k ''NICKNAME'' \<longrightarrow> blankValue v) ms
         | _ \<Rightarrow> True)
      else
        (case Form r of
           Inl err \<Rightarrow> True
         | Inr form \<Rightarrow> TrimSpace (FormValue form ''nickname'') = []))"

section \<open>Concrete inputs\<close>

text \<open>
  Inputs at which the theorems below are instantiated.  The address check of
  \<open>exampleEnv\<close> only asks for an \<^verbatim>\<open>@\<close>; the theorems hold for every address check.
\<close>

definition jan1 :: "nat \<Rightarrow> nat \<Rightarrow> nat \<Rightarrow> timestamp" where
  "jan1 h m s =
     \<lparr> ts_year = 2025, ts_month = 1, ts_day = 1, ts_hour = h, ts_minute = m, ts_second = s \<rparr>"

definition exampleEnv :: env where
  "exampleEnv =
     \<lparr> ParseAddress = (\<lambda>s. CHR ''@'' \<in> set s),
       currentTimestamp = jan1 12 0 0,
       fault = (\<lambda>op. None),
       LookupEnv = (\<lambda>name. None) \<rparr>"

definition failingEnv :: env where
  "failingEnv = exampleEnv\<lparr> fault := (\<lambda>op. if op = OpInsert then Some ''disk I/O error'' else None) \<rparr>"

definition readyDatabase :: database where
  "readyDatabase = execSchema emptyDatabase"

definition aliceEntry :: waitlistEntry where
  "aliceEntry = \<lparr> w_id = 1, w_email = ''a@example.com'', w_created_at = jan1 11 0 0 \<rparr>"

definition aliceDatabase :: database where
  "aliceDatabase =
     \<lparr> waitlist = Some [aliceEntry], waitlist_sequence = 1,
       waitlist_honeypot = Some [], waitlist_honeypot_sequence = 0 \<rparr>"

text \<open>
  The same tables after rows with the ids 2 to 7 have come and gone, and with the
  ids of both tables used up.
\<close>

definition prunedDatabase :: database where
  "prunedDatabase = aliceDatabase\<lparr> waitlist_sequence := 7, waitlist_honeypot_sequence := 4 \<rparr>"

definition exhaustedDatabase :: database where
  "exhaustedDatabase =
     aliceDatabase\<lparr> waitlist_sequence := MAX_ROWID, waitlist_honeypot_sequence := MAX_ROWID \<rparr>"

definition noForm :: "string \<Rightarrow> string list" where
  "noForm key = []"

definition jsonRequest :: "string \<Rightarrow> json option \<Rightarrow> request" where
  "jsonRequest m b =
     \<lparr> Method = m, URLPath = ''/api/v1/waitlist'', ContentType = ''application/json'',
       Body = b, Form = Inr noForm \<rparr>"

definition formRequest :: "string \<Rightarrow> string \<Rightarrow> string \<Rightarrow> request" where
  "formRequest m email nickname =
     \<lparr> Method = m, URLPath = ''/api/v1/waitlist'',
       ContentType = ''application/x-www-form-urlencoded'', Body = None,
       Form = Inr (\<lambda>key. if key = ''email'' then [email]
                          else if key = ''nickname'' then [nickname] else []) \<rparr>"

definition rootRequest :: "string \<Rightarrow> request" where
  "rootRequest m =
     \<lparr> Method = m, URLPath = ''/'', ContentType = [], Body = None, Form = Inr noForm \<rparr>"

text \<open>Rows stored out of order, two of them within the same second, in each table.\<close>

definition collidingRows :: "waitlistEntry list" where
  "collidingRows =
     [\<lparr> w_id = 2, w_email = ''a@example.com'', w_created_at = jan1 10 0 0 \<rparr>,
      \<lparr> w_id = 1, w_email = ''b@example.com'', w_created_at = jan1 10 0 0 \<rparr>,
      \<lparr> w_id = 3, w_email = ''c@example.com'', w_created_at = jan1 9 0 0 \<rparr>]"

definition trappedRows :: "honeypotEntry list" where
  "trappedRows =
     [\<lparr> h_id = 5, h_email = [], h_trap_value = ''bot'', h_created_at = jan1 10 30 5 \<rparr>,
      \<lparr> h_id = 4, h_email = ''not-an-email'', h_trap_value = ''x'', h_created_at = jan1 10 30 5 \<rparr>]"

definition collidingDatabase :: database where
  "collidingDatabase =
     \<lparr> waitlist = Some collidingRows, waitlist_sequence = 3,
       waitlist_honeypot = Some trappedRows, waitlist_honeypot_sequence = 5 \<rparr>"

section \<open>Facts about the string functions and the responses\<close>

lemma status_writeMessage [simp]: "status (writeMessage c m h) = c"
  by (simp add: writeMessage_def)

lemma body_writeMessage [simp]:
  "body (writeMessage c m h) = (if h then htmlPage m else jsonMessage m)"
  by (simp add: writeMessage_def)

lemma headers_writeMessage [simp]:
  "headers (writeMessage c m h) ''Content-Type''
     = Some (if h then ''text/html; charset=utf-8'' else ''application/json'')"
  by (simp add: writeMessage_def)

lemma lastRowid_None [simp]: "lastRowid ids = None \<longleftrightarrow> ids = []"
  by (cases ids) simp_all

lemma lastRowid_bound: "lastRowid ids = Some m \<Longrightarrow> j \<in> set ids \<Longrightarrow> j \<le> m"
  by (induction ids arbitrary: m) (auto split: option.splits)

text \<open>The id of a new row is not in the table and is above every id used before.\<close>

lemma newRowid_above:
  assumes "newRowid ids largestEver = Some i"
  shows "(\<forall>j\<in>set ids. j < i) \<and> largestEver < i"
proof (cases "lastRowid ids")
  case None
  with assms show ?thesis
    by (auto simp add: newRowid_def split: if_splits)
next
  case (Some m)
  have "\<And>j. j \<in> set ids \<Longrightarrow> j \<le> m"
    using lastRowid_bound [OF Some] .
  then have "\<And>j. j \<in> set ids \<Longrightarrow> j < max (m + 1) (largestEver + 1)"
    by fastforce
  with assms Some show ?thesis
    by (auto simp add: newRowid_def split: if_splits)
qed

lemma newRowid_fresh:
  assumes "newRowid ids largestEver = Some i"
  shows "i \<notin> set ids \<and> largestEver < i"
  using newRowid_above [OF assms] by auto

lemma lastRowid_append_above:
  "\<forall>j\<in>set ids. j < i \<Longrightarrow> lastRowid (ids @ [i]) = Some i"
  by (induction ids) (auto split: option.splits)

lemma TrimSpace_Nil [simp]: "TrimSpace [] = []"
  by (simp add: TrimSpace_def trimRight_def)

lemma HasPrefix_append [simp]: "HasPrefix (p @ s) p"
  by (induction p) simp_all

lemma HasSuffix_append [simp]: "HasSuffix (s @ t) t"
  by (simp add: HasSuffix_def)

lemma HasSuffix_append3 [simp]: "HasSuffix (s @ t @ u) u"
  using HasSuffix_append [of "s @ t" u] by simp




lemma isUniqueConstraint_uniqueViolation [simp]: "isUniqueConstraint uniqueViolation"
  by (simp add: isUniqueConstraint_def uniqueViolation_def)

lemma jsonMessage_framed:
  "jsonMessage m = jsonOpening @ concat (map escapeJSONChar m) @ jsonClosing"
  by (simp add: jsonMessage_def jsonOpening_def jsonClosing_def jsonQuote_def LF_def)

lemma jsonShaped_writeMessage: "jsonShaped (writeMessage c m False)"
  by (simp add: jsonShaped_def writeMessage_def jsonMessage_framed)

lemma htmlShaped_writeMessage: "htmlShaped (writeMessage c m True)"
  by (simp add: htmlShaped_def writeMessage_def htmlPage_def)

lemma count_distinct_member:
  "distinct (map f xs) \<Longrightarrow> x \<in> set xs \<Longrightarrow> length (filter (\<lambda>y. f y = f x) xs) = 1"
proof (induction xs)
  case Nil
  then show ?case by simp
next
  case (Cons a xs)
  show ?case
  proof (cases "f a = f x")
    case True
    with Cons.prems have "\<forall>y\<in>set xs. f y \<noteq> f x" by (auto simp: image_iff)
    then have "filter (\<lambda>y. f y = f x) xs = []" by (simp add: filter_empty_conv)
    with True show ?thesis by simp
  next
    case False
    with Cons show ?thesis by auto
  qed
qed

lemma count_fresh: "e \<notin> set (map f xs) \<Longrightarrow> filter (\<lambda>y. f y = e) xs = []"
  by (induction xs) auto

section \<open>Evaluation at the concrete inputs\<close>

lemma isJSON_jsonRequest [simp]: "isJSON (jsonRequest m b)"
  by (simp add: isJSON_def jsonRequest_def)

lemma isJSON_formRequest [simp]: "\<not> isJSON (formRequest m a b)"
  by (simp add: isJSON_def formRequest_def)

lemma Method_jsonRequest [simp]: "Method (jsonRequest m b) = m"
  by (simp add: jsonRequest_def)

lemma Method_formRequest [simp]: "Method (formRequest m a b) = m"
  by (simp add: formRequest_def)

lemma readFields_formRequest [simp]: "readFields (formRequest m a b) = Inr (a, b)"
  by (simp add: readFields_def) (simp add: formRequest_def FormValue_def)

lemma readFields_jsonRequest_email [simp]:
  "readFields (jsonRequest m (Some (JObject [(''email'', JString a)]))) = Inr (a, [])"
  by (simp add: readFields_def)
     (simp add: jsonRequest_def upperASCII_def byte_def char_of_eq_iff)

lemma readFields_jsonRequest_both [simp]:
  "readFields (jsonRequest m (Some (JObject [(''email'', JString a), (''nickname'', JString b)])))
     = Inr (a, b)"
  by (simp add: readFields_def)
     (simp add: jsonRequest_def upperASCII_def byte_def char_of_eq_iff)

lemma TrimSpace_examples [simp]:
  "TrimSpace '' a@example.com '' = ''a@example.com''"
  "TrimSpace ''a@example.com'' = ''a@example.com''"
  "TrimSpace ''b@example.com'' = ''b@example.com''"
  "TrimSpace ''not-an-email'' = ''not-an-email''"
  "TrimSpace ''bot'' = ''bot''"
  "TrimSpace ''  '' = []"
  by (simp_all add: TrimSpace_def trimRight_def asciiSpace_def isSpace2_def isSpace3_def byte_def)

lemma newRowid_examples [simp]:
  "newRowid [] 0 = Some 1" "newRowid [1] 1 = Some 2" "newRowid [1] 7 = Some 8"
  "newRowid [] 4 = Some 5" "newRowid [1] MAX_ROWID = None" "newRowid [] MAX_ROWID = None"
  by (simp_all add: newRowid_def MAX_ROWID_def)

lemmas example_defs = exampleEnv_def failingEnv_def readyDatabase_def aliceEntry_def
  aliceDatabase_def prunedDatabase_def exhaustedDatabase_def emptyDatabase_def execSchema_def

section \<open>The submission handler: outcomes of a genuine submission\<close>

lemma waitlistHandler_genuine:
  assumes "Method r = ''POST''"
    and "readFields r = Inr (email0, trapValue0)"
    and "TrimSpace trapValue0 = []"
    and "TrimSpace email0 \<noteq> []"
    and "ParseAddress e (TrimSpace email0)"
  shows "waitlistHandler e db r =
     (case insertWaitlist e db (TrimSpace email0) of
        (Some err, db') \<Rightarrow>
          if isUniqueConstraint err then
            (writeMessage 409 ''email already registered'' (\<not> isJSON r), db', [])
          else
            (writeMessage 500 ''internal server error'' (\<not> isJSON r), db',
             [''failed to insert email: '' @ err])
      | (None, db') \<Rightarrow>
          (writeMessage 201 ''email accepted for waitlist'' (\<not> isJSON r), db', []))"
  using assms by (simp add: waitlistHandler_def)

lemma insertWaitlist_error_unchanged:
  "fst (insertWaitlist e db email) = Some err \<Longrightarrow> insertWaitlist e db email = (Some err, db)"
  by (auto simp add: insertWaitlist_def split: option.splits if_splits)

lemma insertHoneypot_error_unchanged:
  "fst (insertHoneypot e db email trapValue) = Some err \<Longrightarrow>
     insertHoneypot e db email trapValue = (Some err, db)"
  by (auto simp add: insertHoneypot_def split: option.splits if_splits)

lemma isUniqueConstraint_databaseFull [simp]: "\<not> isUniqueConstraint databaseFull"
  by (simp add: isUniqueConstraint_def databaseFull_def)

text \<open>
  C1.  A POST whose body parses, whose trap field trims to the empty string and whose
  trimmed email is non-empty and accepted by the address check reaches the insert.
  \<^item> When the email is already stored (the \<^verbatim>\<open>UNIQUE\<close> column rejects the insert), and
    whenever the insert returns an error that \<^verbatim>\<open>isUniqueConstraint\<close> recognises, the
    response has status 409 and carries the message \<^verbatim>\<open>email already registered\<close>; the
    database is unchanged, and the table still holds exactly one row with that email.
  \<^item> When the insert fails with any other error (a storage failure, or no id left in the
    table), the response has status 500 and carries \<^verbatim>\<open>internal server error\<close>, the
    database is unchanged and the error is logged.
  \<^item> When the insert succeeds, the response has status 201 and carries
    \<^verbatim>\<open>email accepted for waitlist\<close>; the table has exactly one new row, with a fresh
    id, and it is the only row with that email.
  The message is the JSON object for a JSON request and the HTML page otherwise.
\<close>

theorem waitlistHandler_insert_outcomes:
  assumes "Method r = ''POST''"
    and "readFields r = Inr (email0, trapValue0)"
    and "TrimSpace trapValue0 = []"
    and "email = TrimSpace email0"
    and "email \<noteq> []"
    and "ParseAddress e email"
    and "waitlistHandler e db r = (resp, db', logged)"
  shows
   "(fault e OpInsert = None \<and> waitlist db = Some rows \<and> distinct (map w_email rows)
       \<and> email \<in> set (map w_email rows)
       \<and> newRowid (map w_id rows) (waitlist_sequence db) \<noteq> None \<longrightarrow>
        status resp = 409
        \<and> body resp = (if isJSON r then jsonMessage ''email already registered''
                        else htmlPage ''email already registered'')
        \<and> db' = db \<and> logged = []
        \<and> length (filter (\<lambda>x. w_email x = email) rows) = 1)
  \<and> (\<forall>err. fst (insertWaitlist e db email) = Some err \<and> isUniqueConstraint err \<longrightarrow>
        status resp = 409
        \<and> body resp = (if isJSON r then jsonMessage ''email already registered''
                        else htmlPage ''email already registered'')
        \<and> db' = db \<and> logged = [])
  \<and> (\<forall>err. fst (insertWaitlist e db email) = Some err \<and> \<not> isUniqueConstraint err \<longrightarrow>
        status resp = 500
        \<and> body resp = (if isJSON r then jsonMessage ''internal server error''
                        else htmlPage ''internal server error'')
        \<and> db' = db \<and> logged = [''failed to insert email: '' @ err])
  \<and> (fault e OpInsert = None \<and> waitlist db = Some rows
       \<and> email \<notin> set (map w_email rows)
       \<and> newRowid (map w_id rows) (waitlist_sequence db) = None \<longrightarrow>
        status resp = 500
        \<and> body resp = (if isJSON r then jsonMessage ''internal server error''
                        else htmlPage ''internal server error'')
        \<and> db' = db)
  \<and> (\<forall>i. fault e OpInsert = None \<and> waitlist db = Some rows
       \<and> email \<notin> set (map w_email rows)
       \<and> newRowid (map w_id rows) (waitlist_sequence db) = Some i \<longrightarrow>
        status resp = 201
        \<and> body resp = (if isJSON r then jsonMessage ''email accepted for waitlist''
                        else htmlPage ''email accepted for waitlist'')
        \<and> db' = db\<lparr> waitlist := Some (rows @
                      [\<lparr> w_id = i, w_email = email, w_created_at = currentTimestamp e \<rparr>]),
                    waitlist_sequence := i \<rparr>
        \<and> logged = []
        \<and> i \<notin> set (map w_id rows)
        \<and> length (filter (\<lambda>y. w_email y = email)
             (rows @ [\<lparr> w_id = i, w_email = email, w_created_at = currentTimestamp e \<rparr>])) = 1)
  \<and> headers resp ''Content-Type''
       = Some (if isJSON r then ''application/json'' else ''text/html; charset=utf-8'')"
proof -
  note h = waitlistHandler_genuine [OF assms(1-3), of e db] assms(4-7)
  show ?thesis
  proof (intro conjI impI allI)
    assume a: "fault e OpInsert = None \<and> waitlist db = Some rows \<and> distinct (map w_email rows)
       \<and> email \<in> set (map w_email rows)
       \<and> newRowid (map w_id rows) (waitlist_sequence db) \<noteq> None"
    then have "insertWaitlist e db email = (Some uniqueViolation, db)"
      by (auto simp add: insertWaitlist_def)
    with h show "status resp = 409"
      and "body resp = (if isJSON r then jsonMessage ''email already registered''
                        else htmlPage ''email already registered'')"
      and "db' = db" and "logged = []"
      by auto
    from a obtain x where "x \<in> set rows" "w_email x = email" by auto
    with a show "length (filter (\<lambda>x. w_email x = email) rows) = 1"
      using count_distinct_member [of w_email rows x] by simp
  next
    fix err
    assume a: "fst (insertWaitlist e db email) = Some err \<and> isUniqueConstraint err"
    then have "insertWaitlist e db email = (Some err, db)"
      by (simp add: insertWaitlist_error_unchanged)
    with a h show "status resp = 409"
      and "body resp = (if isJSON r then jsonMessage ''email already registered''
                        else htmlPage ''email already registered'')"
      and "db' = db" and "logged = []"
      by auto
  next
    fix err
    assume a: "fst (insertWaitlist e db email) = Some err \<and> \<not> isUniqueConstraint err"
    then have "insertWaitlist e db email = (Some err, db)"
      by (simp add: insertWaitlist_error_unchanged)
    with a h show "status resp = 500"
      and "body resp = (if isJSON r then jsonMessage ''internal server error''
                        else htmlPage ''internal server error'')"
      and "db' = db" and "logged = [''failed to insert email: '' @ err]"
      by auto
  next
    assume "fault e OpInsert = None \<and> waitlist db = Some rows
       \<and> email \<notin> set (map w_email rows)
       \<and> newRowid (map w_id rows) (waitlist_sequence db) = None"
    then have "insertWaitlist e db email = (Some databaseFull, db)"
      by (simp add: insertWaitlist_def)
    with h show "status resp = 500"
      and "body resp = (if isJSON r then jsonMessage ''internal server error''
                        else htmlPage ''internal server error'')"
      and "db' = db"
      by auto
  next
    fix i
    assume a: "fault e OpInsert = None \<and> waitlist db = Some rows
       \<and> email \<notin> set (map w_email rows)
       \<and> newRowid (map w_id rows) (waitlist_sequence db) = Some i"
    let ?x = "\<lparr> w_id = i, w_email = email, w_created_at = currentTimestamp e \<rparr>"
    from a have "insertWaitlist e db email
        = (None, db\<lparr> waitlist := Some (rows @ [?x]), waitlist_sequence := i \<rparr>)"
      by (simp add: insertWaitlist_def)
    with h show "status resp = 201"
      and "body resp = (if isJSON r then jsonMessage ''email accepted for waitlist''
                        else htmlPage ''email accepted for waitlist'')"
      and "db' = db\<lparr> waitlist := Some (rows @ [?x]), waitlist_sequence := i \<rparr>"
      and "logged = []"
      by auto
    from a newRowid_fresh [of "map w_id rows" "waitlist_sequence db" i]
    show "i \<notin> set (map w_id rows)"
      by blast
    from a show "length (filter (\<lambda>y. w_email y = email) (rows @ [?x])) = 1"
      using count_fresh [of email w_email rows] by simp
  next
    from h show "headers resp ''Content-Type''
       = Some (if isJSON r then ''application/json'' else ''text/html; charset=utf-8'')"
      by (auto split: prod.splits option.splits if_splits)
  qed
qed

text \<open>
  The outcomes at concrete inputs: a form submission of a stored email (with
  surrounding blanks), the same submission when the storage fails, a new email when no
  id is left, and a JSON submission of a new email to a table whose ids 2 to 7 have
  been used before (the new row gets id 8).  The bodies are written out in full.
\<close>

theorem waitlistHandler_insert_outcomes_witness:
  "waitlistHandler exampleEnv aliceDatabase (formRequest ''POST'' '' a@example.com '' [])
     = (\<lparr> status = 409,
          headers = [''Content-Type'' \<mapsto> ''text/html; charset=utf-8''],
          body = ''<!DOCTYPE html><html lang='' @ [CHR 0x22] @ ''en'' @ [CHR 0x22]
            @ ''><head><meta charset='' @ [CHR 0x22] @ ''utf-8'' @ [CHR 0x22]
            @ ''><title>Waitlist</title></head><body><main><h1>Waitlist</h1><p>''
            @ ''email already registered''
            @ ''</p><p><a href='' @ [CHR 0x22] @ ''/'' @ [CHR 0x22]
            @ ''>Back to form</a></p></main></body></html>'' \<rparr>,
        aliceDatabase, [])
   \<and> status (fst (waitlistHandler failingEnv aliceDatabase
                     (formRequest ''POST'' '' a@example.com '' []))) = 500
   \<and> snd (waitlistHandler failingEnv aliceDatabase (formRequest ''POST'' '' a@example.com '' []))
       = (aliceDatabase, [''failed to insert email: disk I/O error''])
   \<and> status (fst (waitlistHandler exampleEnv exhaustedDatabase
                     (formRequest ''POST'' ''b@example.com'' []))) = 500
   \<and> fst (snd (waitlistHandler exampleEnv exhaustedDatabase
                     (formRequest ''POST'' ''b@example.com'' []))) = exhaustedDatabase
   \<and> waitlistHandler exampleEnv prunedDatabase
        (jsonRequest ''POST'' (Some (JObject [(''email'', JString ''b@example.com'')])))
     = (\<lparr> status = 201,
          headers = [''Content-Type'' \<mapsto> ''application/json''],
          body = ''{'' @ [CHR 0x22] @ ''message'' @ [CHR 0x22] @ '':'' @ [CHR 0x22]
            @ ''email accepted for waitlist'' @ [CHR 0x22] @ ''}'' @ [CHR 0x0A] \<rparr>,
        \<lparr> waitlist = Some [aliceEntry,
             \<lparr> w_id = 8, w_email = ''b@example.com'', w_created_at = jan1 12 0 0 \<rparr>],
          waitlist_sequence = 8,
          waitlist_honeypot = Some [], waitlist_honeypot_sequence = 4 \<rparr>, [])"
proof -
  let ?dupReq = "formRequest ''POST'' '' a@example.com '' []"
  let ?bReq = "formRequest ''POST'' ''b@example.com'' []"
  let ?newReq = "jsonRequest ''POST'' (Some (JObject [(''email'', JString ''b@example.com'')]))"
  have m1: "Method ?dupReq = ''POST''" and m2: "Method ?bReq = ''POST''"
    and m3: "Method ?newReq = ''POST''"
    by simp_all
  have f1: "readFields ?dupReq = Inr ('' a@example.com '', [])"
    and f2: "readFields ?bReq = Inr (''b@example.com'', [])"
    and f3: "readFields ?newReq = Inr (''b@example.com'', [])"
    by simp_all
  have t: "TrimSpace [] = []"
    by simp
  have a1: "''a@example.com'' = TrimSpace '' a@example.com ''"
    and a3: "''b@example.com'' = TrimSpace ''b@example.com''"
    by simp_all
  have n1: "''a@example.com'' \<noteq> []" and n3: "''b@example.com'' \<noteq> []"
    by simp_all
  have p1: "ParseAddress exampleEnv ''a@example.com''"
    and p2: "ParseAddress failingEnv ''a@example.com''"
    and p3: "ParseAddress exampleEnv ''b@example.com''"
    by (simp_all add: example_defs)
  obtain resp1 db1 log1 where r1: "waitlistHandler exampleEnv aliceDatabase ?dupReq = (resp1, db1, log1)"
    by (cases "waitlistHandler exampleEnv aliceDatabase ?dupReq")
  obtain resp2 db2 log2 where r2: "waitlistHandler failingEnv aliceDatabase ?dupReq = (resp2, db2, log2)"
    by (cases "waitlistHandler failingEnv aliceDatabase ?dupReq")
  obtain resp3 db3 log3 where r3: "waitlistHandler exampleEnv exhaustedDatabase ?bReq = (resp3, db3, log3)"
    by (cases "waitlistHandler exampleEnv exhaustedDatabase ?bReq")
  obtain resp4 db4 log4 where r4: "waitlistHandler exampleEnv prunedDatabase ?newReq = (resp4, db4, log4)"
    by (cases "waitlistHandler exampleEnv prunedDatabase ?newReq")
  have dup: "fault exampleEnv OpInsert = None \<and> waitlist aliceDatabase = Some [aliceEntry]
      \<and> distinct (map w_email [aliceEntry])
      \<and> ''a@example.com'' \<in> set (map w_email [aliceEntry])
      \<and> newRowid (map w_id [aliceEntry]) (waitlist_sequence aliceDatabase) \<noteq> None"
    by (simp add: example_defs)
  have bad: "fst (insertWaitlist failingEnv aliceDatabase ''a@example.com'') = Some ''disk I/O error''
      \<and> \<not> isUniqueConstraint ''disk I/O error''"
    by (simp add: example_defs insertWaitlist_def isUniqueConstraint_def)
  have full: "fault exampleEnv OpInsert = None \<and> waitlist exhaustedDatabase = Some [aliceEntry]
      \<and> ''b@example.com'' \<notin> set (map w_email [aliceEntry])
      \<and> newRowid (map w_id [aliceEntry]) (waitlist_sequence exhaustedDatabase) = None"
    by (simp add: example_defs)
  have new: "fault exampleEnv OpInsert = None \<and> waitlist prunedDatabase = Some [aliceEntry]
      \<and> ''b@example.com'' \<notin> set (map w_email [aliceEntry])
      \<and> newRowid (map w_id [aliceEntry]) (waitlist_sequence prunedDatabase) = Some 8"
    by (simp add: example_defs)
  from dup waitlistHandler_insert_outcomes [OF m1 f1 t a1 n1 p1 r1, where rows = "[aliceEntry]"]
  have 1: "status resp1 = 409" "db1 = aliceDatabase" "log1 = []"
      "headers resp1 ''Content-Type'' = Some ''text/html; charset=utf-8''"
      "body resp1 = htmlPage ''email already registered''"
    by simp_all
  from bad waitlistHandler_insert_outcomes [OF m1 f1 t a1 n1 p2 r2, where rows = "[aliceEntry]"]
  have 2: "status resp2 = 500" "db2 = aliceDatabase"
      "log2 = [''failed to insert email: disk I/O error'']"
    by simp_all
  from full waitlistHandler_insert_outcomes [OF m2 f2 t a3 n3 p3 r3, where rows = "[aliceEntry]"]
  have 3: "status resp3 = 500" "db3 = exhaustedDatabase"
    by simp_all
  from new waitlistHandler_insert_outcomes [OF m3 f3 t a3 n3 p3 r4, where rows = "[aliceEntry]"]
  have 4: "status resp4 = 201" "log4 = []"
      "headers resp4 ''Content-Type'' = Some ''application/json''"
      "body resp4 = jsonMessage ''email accepted for waitlist''"
      "db4 = prunedDatabase\<lparr> waitlist := Some ([aliceEntry] @
                      [\<lparr> w_id = 8, w_email = ''b@example.com'',
                         w_created_at = currentTimestamp exampleEnv \<rparr>]),
                    waitlist_sequence := 8 \<rparr>"
    by simp_all
  have page: "htmlPage ''email already registered''
      = ''<!DOCTYPE html><html lang='' @ [CHR 0x22] @ ''en'' @ [CHR 0x22]
            @ ''><head><meta charset='' @ [CHR 0x22] @ ''utf-8'' @ [CHR 0x22]
            @ ''><title>Waitlist</title></head><body><main><h1>Waitlist</h1><p>''
            @ ''email already registered''
            @ ''</p><p><a href='' @ [CHR 0x22] @ ''/'' @ [CHR 0x22]
            @ ''>Back to form</a></p></main></body></html>''"
    by code_simp
  have object: "jsonMessage ''email accepted for waitlist''
      = ''{'' @ [CHR 0x22] @ ''message'' @ [CHR 0x22] @ '':'' @ [CHR 0x22]
            @ ''email accepted for waitlist'' @ [CHR 0x22] @ ''}'' @ [CHR 0x0A]"
    by code_simp
  have h1: "headers resp1 = [''Content-Type'' \<mapsto> ''text/html; charset=utf-8'']"
    using r1 by (auto simp add: waitlistHandler_def writeMessage_def Let_def
          split: sum.splits prod.splits option.splits if_splits)
  have h4: "headers resp4 = [''Content-Type'' \<mapsto> ''application/json'']"
    using r4 by (auto simp add: waitlistHandler_def writeMessage_def Let_def
          split: sum.splits prod.splits option.splits if_splits)
  from 1 h1 page have e1: "resp1 = \<lparr> status = 409,
          headers = [''Content-Type'' \<mapsto> ''text/html; charset=utf-8''],
          body = ''<!DOCTYPE html><html lang='' @ [CHR 0x22] @ ''en'' @ [CHR 0x22]
            @ ''><head><meta charset='' @ [CHR 0x22] @ ''utf-8'' @ [CHR 0x22]
            @ ''><title>Waitlist</title></head><body><main><h1>Waitlist</h1><p>''
            @ ''email already registered''
            @ ''</p><p><a href='' @ [CHR 0x22] @ ''/'' @ [CHR 0x22]
            @ ''>Back to form</a></p></main></body></html>'' \<rparr>"
    by (cases resp1) simp
  from 4 h4 object have e4: "resp4 = \<lparr> status = 201,
          headers = [''Content-Type'' \<mapsto> ''application/json''],
          body = ''{'' @ [CHR 0x22] @ ''message'' @ [CHR 0x22] @ '':'' @ [CHR 0x22]
            @ ''email accepted for waitlist'' @ [CHR 0x22] @ ''}'' @ [CHR 0x0A] \<rparr>"
    by (cases resp4) simp
  from 4(5) have d4: "db4 = \<lparr> waitlist = Some [aliceEntry,
             \<lparr> w_id = 8, w_email = ''b@example.com'', w_created_at = jan1 12 0 0 \<rparr>],
          waitlist_sequence = 8,
          waitlist_honeypot = Some [], waitlist_honeypot_sequence = 4 \<rparr>"
    by (simp add: example_defs)
  from r1 r2 r3 r4 1 2 3 4 e1 e4 d4 show ?thesis
    by simp
qed

text \<open>
  The hypotheses on the table are invariants of the handler: once the schema statement
  has run both tables exist, and they keep existing, with distinct emails in the primary
  table, whatever request is handled.
\<close>

lemma execSchema_ready:
  "waitlist (execSchema db) \<noteq> None \<and> waitlist_honeypot (execSchema db) \<noteq> None"
  by (simp add: execSchema_def)

lemma insertWaitlist_keeps_unique:
  assumes "waitlist db = Some rows" and "distinct (map w_email rows)"
  shows "\<exists>rows'. waitlist (snd (insertWaitlist e db email)) = Some rows'
           \<and> distinct (map w_email rows')
           \<and> waitlist_honeypot (snd (insertWaitlist e db email)) = waitlist_honeypot db"
  using assms by (auto simp add: insertWaitlist_def split: option.splits)

lemma insertHoneypot_keeps_waitlist:
  "waitlist (snd (insertHoneypot e db email trapValue)) = waitlist db
   \<and> (waitlist_honeypot db \<noteq> None \<longrightarrow>
        waitlist_honeypot (snd (insertHoneypot e db email trapValue)) \<noteq> None)"
  by (auto simp add: insertHoneypot_def split: option.splits)

lemma waitlistHandler_keeps_unique:
  assumes "waitlist db = Some rows" and "distinct (map w_email rows)"
    and "waitlist_honeypot db \<noteq> None"
  shows "\<exists>rows'. waitlist (fst (snd (waitlistHandler e db r))) = Some rows'
           \<and> distinct (map w_email rows')
           \<and> waitlist_honeypot (fst (snd (waitlistHandler e db r))) \<noteq> None"
proof -
  have w: "\<And>email. \<exists>rows'. waitlist (snd (insertWaitlist e db email)) = Some rows'
           \<and> distinct (map w_email rows')
           \<and> waitlist_honeypot (snd (insertWaitlist e db email)) \<noteq> None"
  proof -
    fix email
    from insertWaitlist_keeps_unique [OF assms(1,2), of e email]
    obtain rows' where "waitlist (snd (insertWaitlist e db email)) = Some rows'"
        "distinct (map w_email rows')"
        "waitlist_honeypot (snd (insertWaitlist e db email)) = waitlist_honeypot db"
      by blast
    with assms(3) show "\<exists>rows'. waitlist (snd (insertWaitlist e db email)) = Some rows'
           \<and> distinct (map w_email rows')
           \<and> waitlist_honeypot (snd (insertWaitlist e db email)) \<noteq> None"
      by simp
  qed
  have h: "\<And>email trapValue. \<exists>rows'. waitlist (snd (insertHoneypot e db email trapValue)) = Some rows'
           \<and> distinct (map w_email rows')
           \<and> waitlist_honeypot (snd (insertHoneypot e db email trapValue)) \<noteq> None"
    using insertHoneypot_keeps_waitlist [of e db] assms by auto
  have "fst (snd (waitlistHandler e db r)) = db
      \<or> (\<exists>email. fst (snd (waitlistHandler e db r)) = snd (insertWaitlist e db email))
      \<or> (\<exists>email trapValue. fst (snd (waitlistHandler e db r)) = snd (insertHoneypot e db email trapValue))"
    by (auto simp add: waitlistHandler_def Let_def case_prod_beta split: sum.splits option.splits)
  with assms w h show ?thesis
    by (elim disjE exE) auto
qed

text \<open>
  The same new email submitted twice: 201, then 409, and one row with that email
  persists (the first submission must not have taken the last id).
\<close>

lemma waitlistHandler_twice:
  assumes "Method r = ''POST''"
    and "readFields r = Inr (email0, trapValue0)"
    and "TrimSpace trapValue0 = []"
    and "TrimSpace email0 \<noteq> []"
    and "ParseAddress e (TrimSpace email0)"
    and "fault e OpInsert = None"
    and "waitlist db = Some rows"
    and "TrimSpace email0 \<notin> set (map w_email rows)"
    and "newRowid (map w_id rows) (waitlist_sequence db) = Some i"
    and "i < MAX_ROWID"
    and "waitlistHandler e db r = (resp1, db1, log1)"
    and "waitlistHandler e db1 r = (resp2, db2, log2)"
  shows "status resp1 = 201 \<and> status resp2 = 409 \<and> db2 = db1
       \<and> (\<exists>rows1. waitlist db1 = Some rows1
             \<and> length (filter (\<lambda>x. w_email x = TrimSpace email0) rows1) = 1)"
proof -
  let ?x = "\<lparr> w_id = i, w_email = TrimSpace email0, w_created_at = currentTimestamp e \<rparr>"
  from assms(6-9) have "insertWaitlist e db (TrimSpace email0)
      = (None, db\<lparr>waitlist := Some (rows @ [?x]), waitlist_sequence := i\<rparr>)"
    by (simp add: insertWaitlist_def)
  with waitlistHandler_genuine [OF assms(1-5), of db] assms(11)
  have 1: "status resp1 = 201" "db1 = db\<lparr>waitlist := Some (rows @ [?x]), waitlist_sequence := i\<rparr>"
    by auto
  from newRowid_above [OF assms(9)] have "lastRowid (map w_id rows @ [i]) = Some i"
    by (intro lastRowid_append_above) simp
  with assms(10) have "newRowid (map w_id (rows @ [?x])) i = Some (i + 1)"
    by (simp add: newRowid_def)
  with 1(2) assms(6) have "insertWaitlist e db1 (TrimSpace email0) = (Some uniqueViolation, db1)"
    by (simp add: insertWaitlist_def)
  with waitlistHandler_genuine [OF assms(1-5), of db1] assms(12)
  have 2: "status resp2 = 409" "db2 = db1"
    by auto
  from assms(8) have "length (filter (\<lambda>x. w_email x = TrimSpace email0) (rows @ [?x])) = 1"
    using count_fresh [of "TrimSpace email0" w_email rows] by simp
  with 1 2 show ?thesis by simp
qed

section \<open>The submission handler: rejected requests\<close>

text \<open>
  C5.  A request whose method is not POST gets status 405 with the header
  \<^verbatim>\<open>Allow: POST\<close> and the plain-text body of \<^verbatim>\<open>http.Error\<close>.  The database is
  unchanged, nothing is logged, and the reply does not depend on the body, the form or
  the surroundings: nothing is parsed and nothing is inserted.
\<close>

theorem waitlistHandler_method_not_allowed:
  assumes "Method r \<noteq> ''POST''"
  shows "status (fst (waitlistHandler e db r)) = 405
       \<and> headers (fst (waitlistHandler e db r)) ''Allow'' = Some ''POST''
       \<and> body (fst (waitlistHandler e db r)) = ''method not allowed'' @ [LF]
       \<and> snd (waitlistHandler e db r) = (db, [])
       \<and> (\<forall>e' b f. fst (waitlistHandler e' db (r\<lparr>Body := b, Form := f\<rparr>))
                      = fst (waitlistHandler e db r))"
  using assms by (simp add: waitlistHandler_def httpError_def LF_def)

theorem waitlistHandler_method_not_allowed_witness:
  "Method (jsonRequest ''GET'' None) \<noteq> ''POST''
   \<and> status (fst (waitlistHandler exampleEnv aliceDatabase (jsonRequest ''GET'' None))) = 405
   \<and> headers (fst (waitlistHandler exampleEnv aliceDatabase (jsonRequest ''GET'' None))) ''Allow''
       = Some ''POST''
   \<and> snd (waitlistHandler exampleEnv aliceDatabase (jsonRequest ''GET'' None))
       = (aliceDatabase, [])"
proof -
  have m: "Method (jsonRequest ''GET'' None) \<noteq> ''POST''"
    by simp
  from m waitlistHandler_method_not_allowed [OF m, of exampleEnv aliceDatabase]
  show ?thesis by blast
qed

text \<open>
  C2, as stated, speaks of every request with an empty trap field and an email that is
  empty or malformed.  The fields are read only from a POST: the same form sent with
  GET, and a JSON body with an empty email sent with PUT, are answered 405 before
  anything is parsed, not 400.
\<close>

theorem waitlistHandler_invalid_email_other_method:
  "Form (formRequest ''GET'' ''not-an-email'' [])
     = Form (formRequest ''POST'' ''not-an-email'' [])
   \<and> readFields (formRequest ''GET'' ''not-an-email'' []) = Inr (''not-an-email'', [])
   \<and> TrimSpace [] = []
   \<and> \<not> ParseAddress exampleEnv (TrimSpace ''not-an-email'')
   \<and> status (fst (waitlistHandler exampleEnv readyDatabase
                     (formRequest ''GET'' ''not-an-email'' []))) = 405
   \<and> body (fst (waitlistHandler exampleEnv readyDatabase
                   (formRequest ''GET'' ''not-an-email'' []))) = ''method not allowed'' @ [LF]
   \<and> readFields (jsonRequest ''PUT'' (Some (JObject [(''email'', JString [])]))) = Inr ([], [])
   \<and> status (fst (waitlistHandler exampleEnv readyDatabase
                     (jsonRequest ''PUT'' (Some (JObject [(''email'', JString [])]))))) = 405"
  by (simp add: waitlistHandler_def httpError_def LF_def exampleEnv_def)
     (simp add: formRequest_def)

lemma waitlistHandler_no_email:
  assumes "Method r = ''POST''"
    and "readFields r = Inr (email0, trapValue0)"
    and "TrimSpace trapValue0 = []"
    and "TrimSpace email0 = []"
  shows "waitlistHandler e db r = (writeMessage 400 ''email is required'' (\<not> isJSON r), db, [])"
  using assms by (simp add: waitlistHandler_def)

lemma waitlistHandler_bad_email:
  assumes "Method r = ''POST''"
    and "readFields r = Inr (email0, trapValue0)"
    and "TrimSpace trapValue0 = []"
    and "TrimSpace email0 \<noteq> []"
    and "\<not> ParseAddress e (TrimSpace email0)"
  shows "waitlistHandler e db r
           = (writeMessage 400 ''invalid email address'' (\<not> isJSON r), db, [])"
  using assms by (simp add: waitlistHandler_def)

text \<open>
  C2, amended.  For every POST request whose body parses and whose trap field trims to
  the empty string: when the trimmed email is empty the response has status 400 and
  carries the message \<^verbatim>\<open>email is required\<close>; when it is not empty but the address
  check rejects it the response has status 400 and carries \<^verbatim>\<open>invalid email address\<close>.
  In both cases no insert is performed: the database (both tables) is returned as it
  was, whatever the storage would have answered, and nothing is logged.
\<close>

theorem waitlistHandler_rejects_invalid_email:
  assumes "Method r = ''POST''"
    and "readFields r = Inr (email0, trapValue0)"
    and "TrimSpace trapValue0 = []"
    and "waitlistHandler e db r = (resp, db', logged)"
  shows "(TrimSpace email0 = [] \<longrightarrow>
            status resp = 400
            \<and> body resp = (if isJSON r then jsonMessage ''email is required''
                            else htmlPage ''email is required''))
       \<and> (TrimSpace email0 \<noteq> [] \<and> \<not> ParseAddress e (TrimSpace email0) \<longrightarrow>
            status resp = 400
            \<and> body resp = (if isJSON r then jsonMessage ''invalid email address''
                            else htmlPage ''invalid email address''))
       \<and> (TrimSpace email0 = [] \<or> \<not> ParseAddress e (TrimSpace email0) \<longrightarrow>
            db' = db \<and> logged = []
            \<and> headers resp ''Content-Type''
                = Some (if isJSON r then ''application/json'' else ''text/html; charset=utf-8'')
            \<and> (\<forall>f. waitlistHandler (e\<lparr>fault := f\<rparr>) db r = (resp, db', logged)))"
proof (cases "TrimSpace email0 = []")
  case True
  from waitlistHandler_no_email [OF assms(1-3) True] assms(4)
  have "resp = writeMessage 400 ''email is required'' (\<not> isJSON r)" "db' = db" "logged = []"
      "\<And>f. waitlistHandler (e\<lparr>fault := f\<rparr>) db r = (resp, db', logged)"
    by simp_all
  with True show ?thesis
    by simp
next
  case False
  show ?thesis
  proof (cases "ParseAddress e (TrimSpace email0)")
    case True
    with False show ?thesis
      by simp
  next
    case bad: False
    then have "\<And>f. \<not> ParseAddress (e\<lparr>fault := f\<rparr>) (TrimSpace email0)"
      by simp
    from waitlistHandler_bad_email [OF assms(1-3) False bad, where db = db]
      waitlistHandler_bad_email [OF assms(1-3) False this, where db = db] assms(4)
    have "resp = writeMessage 400 ''invalid email address'' (\<not> isJSON r)" "db' = db" "logged = []"
      "\<And>f. waitlistHandler (e\<lparr>fault := f\<rparr>) db r = (resp, db', logged)"
      by simp_all
    with False bad show ?thesis
      by simp
  qed
qed

text \<open>
  A form submission of blanks and a JSON submission of a string without \<^verbatim>\<open>@\<close>, with
  the bodies written out in full.
\<close>

theorem waitlistHandler_rejects_invalid_email_witness:
  "waitlistHandler exampleEnv aliceDatabase (formRequest ''POST'' ''  '' [])
     = (\<lparr> status = 400,
          headers = [''Content-Type'' \<mapsto> ''text/html; charset=utf-8''],
          body = ''<!DOCTYPE html><html lang='' @ [CHR 0x22] @ ''en'' @ [CHR 0x22]
            @ ''><head><meta charset='' @ [CHR 0x22] @ ''utf-8'' @ [CHR 0x22]
            @ ''><title>Waitlist</title></head><body><main><h1>Waitlist</h1><p>''
            @ ''email is required''
            @ ''</p><p><a href='' @ [CHR 0x22] @ ''/'' @ [CHR 0x22]
            @ ''>Back to form</a></p></main></body></html>'' \<rparr>,
        aliceDatabase, [])
   \<and> waitlistHandler exampleEnv aliceDatabase
        (jsonRequest ''POST'' (Some (JObject [(''email'', JString ''not-an-email'')])))
     = (\<lparr> status = 400,
          headers = [''Content-Type'' \<mapsto> ''application/json''],
          body = ''{'' @ [CHR 0x22] @ ''message'' @ [CHR 0x22] @ '':'' @ [CHR 0x22]
            @ ''invalid email address'' @ [CHR 0x22] @ ''}'' @ [CHR 0x0A] \<rparr>,
        aliceDatabase, [])"
proof -
  let ?r1 = "formRequest ''POST'' ''  '' []"
  let ?r2 = "jsonRequest ''POST'' (Some (JObject [(''email'', JString ''not-an-email'')]))"
  have m1: "Method ?r1 = ''POST''" and m2: "Method ?r2 = ''POST''"
    by simp_all
  have f1: "readFields ?r1 = Inr (''  '', [])" and f2: "readFields ?r2 = Inr (''not-an-email'', [])"
    by simp_all
  have t: "TrimSpace [] = []"
    by simp
  have c1: "TrimSpace ''  '' = []"
    by simp
  have c2: "TrimSpace ''not-an-email'' \<noteq> [] \<and> \<not> ParseAddress exampleEnv (TrimSpace ''not-an-email'')"
    by (simp add: exampleEnv_def)
  obtain resp1 db1 log1 where r1: "waitlistHandler exampleEnv aliceDatabase ?r1 = (resp1, db1, log1)"
    by (cases "waitlistHandler exampleEnv aliceDatabase ?r1")
  obtain resp2 db2 log2 where r2: "waitlistHandler exampleEnv aliceDatabase ?r2 = (resp2, db2, log2)"
    by (cases "waitlistHandler exampleEnv aliceDatabase ?r2")
  from c1 waitlistHandler_rejects_invalid_email [OF m1 f1 t r1]
  have 1: "status resp1 = 400" "body resp1 = htmlPage ''email is required''"
      "db1 = aliceDatabase" "log1 = []"
    by simp_all
  from c2 waitlistHandler_rejects_invalid_email [OF m2 f2 t r2]
  have 2: "status resp2 = 400" "body resp2 = jsonMessage ''invalid email address''"
      "db2 = aliceDatabase" "log2 = []"
    by simp_all
  have h1: "headers resp1 = [''Content-Type'' \<mapsto> ''text/html; charset=utf-8'']"
    using r1 by (auto simp add: waitlistHandler_def writeMessage_def Let_def
          split: sum.splits prod.splits option.splits if_splits)
  have h2: "headers resp2 = [''Content-Type'' \<mapsto> ''application/json'']"
    using r2 by (auto simp add: waitlistHandler_def writeMessage_def Let_def
          split: sum.splits prod.splits option.splits if_splits)
  have page: "htmlPage ''email is required''
      = ''<!DOCTYPE html><html lang='' @ [CHR 0x22] @ ''en'' @ [CHR 0x22]
            @ ''><head><meta charset='' @ [CHR 0x22] @ ''utf-8'' @ [CHR 0x22]
            @ ''><title>Waitlist</title></head><body><main><h1>Waitlist</h1><p>''
            @ ''email is required''
            @ ''</p><p><a href='' @ [CHR 0x22] @ ''/'' @ [CHR 0x22]
            @ ''>Back to form</a></p></main></body></html>''"
    by code_simp
  have object: "jsonMessage ''invalid email address''
      = ''{'' @ [CHR 0x22] @ ''message'' @ [CHR 0x22] @ '':'' @ [CHR 0x22]
            @ ''invalid email address'' @ [CHR 0x22] @ ''}'' @ [CHR 0x0A]"
    by code_simp
  from 1 h1 page have e1: "resp1 = \<lparr> status = 400,
          headers = [''Content-Type'' \<mapsto> ''text/html; charset=utf-8''],
          body = ''<!DOCTYPE html><html lang='' @ [CHR 0x22] @ ''en'' @ [CHR 0x22]
            @ ''><head><meta charset='' @ [CHR 0x22] @ ''utf-8'' @ [CHR 0x22]
            @ ''><title>Waitlist</title></head><body><main><h1>Waitlist</h1><p>''
            @ ''email is required''
            @ ''</p><p><a href='' @ [CHR 0x22] @ ''/'' @ [CHR 0x22]
            @ ''>Back to form</a></p></main></body></html>'' \<rparr>"
    by (cases resp1) simp
  from 2 h2 object have e2: "resp2 = \<lparr> status = 400,
          headers = [''Content-Type'' \<mapsto> ''application/json''],
          body = ''{'' @ [CHR 0x22] @ ''message'' @ [CHR 0x22] @ '':'' @ [CHR 0x22]
            @ ''invalid email address'' @ [CHR 0x22] @ ''}'' @ [CHR 0x0A] \<rparr>"
    by (cases resp2) simp
  from r1 r2 1 2 e1 e2 show ?thesis
    by simp
qed

section \<open>The submission handler: the honeypot\<close>

text \<open>
  C3, as stated, promises status 201 and one stored honeypot row for every POST with a
  non-blank trap field.  The handler checks the result of the honeypot insert: when the
  storage fails the response has status 500, carries \<^verbatim>\<open>internal server error\<close>, and
  no row is stored.  Here the trap field is \<^verbatim>\<open>bot\<close> and the insert fails.
\<close>

theorem waitlistHandler_honeypot_insert_failure:
  "Method (formRequest ''POST'' ''a@example.com'' ''bot'') = ''POST''
   \<and> readFields (formRequest ''POST'' ''a@example.com'' ''bot'') = Inr (''a@example.com'', ''bot'')
   \<and> TrimSpace ''bot'' \<noteq> []
   \<and> status (fst (waitlistHandler failingEnv readyDatabase
                     (formRequest ''POST'' ''a@example.com'' ''bot''))) = 500
   \<and> body (fst (waitlistHandler failingEnv readyDatabase
                   (formRequest ''POST'' ''a@example.com'' ''bot'')))
       = ''<!DOCTYPE html><html lang='' @ [CHR 0x22] @ ''en'' @ [CHR 0x22]
            @ ''><head><meta charset='' @ [CHR 0x22] @ ''utf-8'' @ [CHR 0x22]
            @ ''><title>Waitlist</title></head><body><main><h1>Waitlist</h1><p>''
            @ ''internal server error''
            @ ''</p><p><a href='' @ [CHR 0x22] @ ''/'' @ [CHR 0x22]
            @ ''>Back to form</a></p></main></body></html>''
   \<and> snd (waitlistHandler failingEnv readyDatabase (formRequest ''POST'' ''a@example.com'' ''bot''))
       = (readyDatabase, [''failed to insert honeypot entry: disk I/O error''])
   \<and> waitlist_honeypot readyDatabase = Some []"
proof -
  let ?r = "formRequest ''POST'' ''a@example.com'' ''bot''"
  have "waitlistHandler failingEnv readyDatabase ?r
       = (writeMessage 500 ''internal server error'' True, readyDatabase,
          [''failed to insert honeypot entry: disk I/O error''])"
    by (simp add: waitlistHandler_def insertHoneypot_def example_defs)
  moreover have "htmlPage ''internal server error''
       = ''<!DOCTYPE html><html lang='' @ [CHR 0x22] @ ''en'' @ [CHR 0x22]
            @ ''><head><meta charset='' @ [CHR 0x22] @ ''utf-8'' @ [CHR 0x22]
            @ ''><title>Waitlist</title></head><body><main><h1>Waitlist</h1><p>''
            @ ''internal server error''
            @ ''</p><p><a href='' @ [CHR 0x22] @ ''/'' @ [CHR 0x22]
            @ ''>Back to form</a></p></main></body></html>''"
    by code_simp
  moreover have "waitlist_honeypot readyDatabase = Some []"
    by (simp add: example_defs)
  ultimately show ?thesis
    by simp
qed

lemma waitlistHandler_trapped:
  assumes "Method r = ''POST''"
    and "readFields r = Inr (email0, trapValue0)"
    and "TrimSpace trapValue0 \<noteq> []"
  shows "waitlistHandler e db r =
     (case insertHoneypot e db (TrimSpace email0) (TrimSpace trapValue0) of
        (Some err, db') \<Rightarrow>
          (writeMessage 500 ''internal server error'' (\<not> isJSON r), db',
           [''failed to insert honeypot entry: '' @ err])
      | (None, db') \<Rightarrow>
          (writeMessage 201 ''email accepted for waitlist'' (\<not> isJSON r), db', []))"
  using assms by (simp add: waitlistHandler_def)

text \<open>
  C3, amended.  For every POST whose body parses and whose trap field is non-empty
  after trimming:
  \<^item> the address check plays no part (the result is the same under every address
    check), and the primary table is left as it was;
  \<^item> when the honeypot insert succeeds, exactly one row is appended to the honeypot
    table, holding the trimmed email as it came (empty or malformed included) and the
    trimmed trap value; the response has status 201 and carries
    \<^verbatim>\<open>email accepted for waitlist\<close>, the message of a genuine success;
  \<^item> when the honeypot insert fails, the response has status 500 and carries
    \<^verbatim>\<open>internal server error\<close>, the database is unchanged and the error is logged.
\<close>

theorem waitlistHandler_honeypot:
  assumes "Method r = ''POST''"
    and "readFields r = Inr (email0, trapValue0)"
    and "TrimSpace trapValue0 \<noteq> []"
    and "waitlistHandler e db r = (resp, db', logged)"
  shows
   "(\<forall>i. fault e OpInsert = None \<and> waitlist_honeypot db = Some hrows
        \<and> newRowid (map h_id hrows) (waitlist_honeypot_sequence db) = Some i \<longrightarrow>
       status resp = 201
       \<and> body resp = (if isJSON r then jsonMessage ''email accepted for waitlist''
                       else htmlPage ''email accepted for waitlist'')
       \<and> db' = db\<lparr> waitlist_honeypot := Some (hrows @
                     [\<lparr> h_id = i, h_email = TrimSpace email0,
                        h_trap_value = TrimSpace trapValue0,
                        h_created_at = currentTimestamp e \<rparr>]),
                   waitlist_honeypot_sequence := i \<rparr>
       \<and> logged = []
       \<and> i \<notin> set (map h_id hrows))
  \<and> (\<forall>err. fst (insertHoneypot e db (TrimSpace email0) (TrimSpace trapValue0)) = Some err \<longrightarrow>
       status resp = 500
       \<and> body resp = (if isJSON r then jsonMessage ''internal server error''
                       else htmlPage ''internal server error'')
       \<and> db' = db
       \<and> logged = [''failed to insert honeypot entry: '' @ err])
  \<and> waitlist db' = waitlist db
  \<and> waitlist_sequence db' = waitlist_sequence db
  \<and> headers resp ''Content-Type''
       = Some (if isJSON r then ''application/json'' else ''text/html; charset=utf-8'')
  \<and> (\<forall>p. waitlistHandler (e\<lparr>ParseAddress := p\<rparr>) db r = (resp, db', logged))"
proof -
  note h = waitlistHandler_trapped [OF assms(1-3), of e db]
  show ?thesis
  proof (intro conjI impI allI)
    fix i
    assume a: "fault e OpInsert = None \<and> waitlist_honeypot db = Some hrows
        \<and> newRowid (map h_id hrows) (waitlist_honeypot_sequence db) = Some i"
    then have "insertHoneypot e db (TrimSpace email0) (TrimSpace trapValue0)
        = (None, db\<lparr> waitlist_honeypot := Some (hrows @
                     [\<lparr> h_id = i, h_email = TrimSpace email0,
                        h_trap_value = TrimSpace trapValue0,
                        h_created_at = currentTimestamp e \<rparr>]),
                   waitlist_honeypot_sequence := i \<rparr>)"
      by (simp add: insertHoneypot_def)
    with h assms(4) show "status resp = 201"
      and "body resp = (if isJSON r then jsonMessage ''email accepted for waitlist''
                       else htmlPage ''email accepted for waitlist'')"
      and "db' = db\<lparr> waitlist_honeypot := Some (hrows @
                     [\<lparr> h_id = i, h_email = TrimSpace email0,
                        h_trap_value = TrimSpace trapValue0,
                        h_created_at = currentTimestamp e \<rparr>]),
                   waitlist_honeypot_sequence := i \<rparr>"
      and "logged = []"
      by auto
    from a newRowid_fresh [of "map h_id hrows" "waitlist_honeypot_sequence db" i]
    show "i \<notin> set (map h_id hrows)"
      by blast
  next
    fix err
    assume "fst (insertHoneypot e db (TrimSpace email0) (TrimSpace trapValue0)) = Some err"
    then have "insertHoneypot e db (TrimSpace email0) (TrimSpace trapValue0) = (Some err, db)"
      by (rule insertHoneypot_error_unchanged)
    with h assms(4) show "status resp = 500"
      and "body resp = (if isJSON r then jsonMessage ''internal server error''
                       else htmlPage ''internal server error'')"
      and "db' = db"
      and "logged = [''failed to insert honeypot entry: '' @ err]"
      by auto
  next
    from h assms(4) show "waitlist db' = waitlist db"
      and "waitlist_sequence db' = waitlist_sequence db"
      by (auto simp add: insertHoneypot_def split: option.splits)
    from h assms(4) show "headers resp ''Content-Type''
       = Some (if isJSON r then ''application/json'' else ''text/html; charset=utf-8'')"
      by (auto split: prod.splits option.splits)
  next
    fix p
    have "insertHoneypot (e\<lparr>ParseAddress := p\<rparr>) db (TrimSpace email0) (TrimSpace trapValue0)
        = insertHoneypot e db (TrimSpace email0) (TrimSpace trapValue0)"
      by (simp add: insertHoneypot_def split: option.split)
    with waitlistHandler_trapped [OF assms(1-3), of "e\<lparr>ParseAddress := p\<rparr>" db] h assms(4)
    show "waitlistHandler (e\<lparr>ParseAddress := p\<rparr>) db r = (resp, db', logged)"
      by simp
  qed
qed

text \<open>
  A JSON submission with an empty email and a form submission with a malformed one,
  both with a trap value, into a honeypot table whose ids 1 to 4 have been used before
  (the new row gets id 5); and the failing insert.  The bodies are written out in full.
\<close>

theorem waitlistHandler_honeypot_witness:
  "waitlistHandler exampleEnv prunedDatabase
       (jsonRequest ''POST'' (Some (JObject [(''email'', JString []), (''nickname'', JString ''bot'')])))
     = (\<lparr> status = 201,
          headers = [''Content-Type'' \<mapsto> ''application/json''],
          body = ''{'' @ [CHR 0x22] @ ''message'' @ [CHR 0x22] @ '':'' @ [CHR 0x22]
            @ ''email accepted for waitlist'' @ [CHR 0x22] @ ''}'' @ [CHR 0x0A] \<rparr>,
        \<lparr> waitlist = Some [aliceEntry], waitlist_sequence = 7,
          waitlist_honeypot = Some [\<lparr> h_id = 5, h_email = [], h_trap_value = ''bot'',
                                     h_created_at = jan1 12 0 0 \<rparr>],
          waitlist_honeypot_sequence = 5 \<rparr>, [])
   \<and> waitlistHandler exampleEnv readyDatabase (formRequest ''POST'' ''not-an-email'' ''bot'')
     = (\<lparr> status = 201,
          headers = [''Content-Type'' \<mapsto> ''text/html; charset=utf-8''],
          body = ''<!DOCTYPE html><html lang='' @ [CHR 0x22] @ ''en'' @ [CHR 0x22]
            @ ''><head><meta charset='' @ [CHR 0x22] @ ''utf-8'' @ [CHR 0x22]
            @ ''><title>Waitlist</title></head><body><main><h1>Waitlist</h1><p>''
            @ ''email accepted for waitlist''
            @ ''</p><p><a href='' @ [CHR 0x22] @ ''/'' @ [CHR 0x22]
            @ ''>Back to form</a></p></main></body></html>'' \<rparr>,
        \<lparr> waitlist = Some [], waitlist_sequence = 0,
          waitlist_honeypot = Some [\<lparr> h_id = 1, h_email = ''not-an-email'', h_trap_value = ''bot'',
                                     h_created_at = jan1 12 0 0 \<rparr>],
          waitlist_honeypot_sequence = 1 \<rparr>, [])
   \<and> status (fst (waitlistHandler failingEnv readyDatabase
                     (formRequest ''POST'' ''not-an-email'' ''bot''))) = 500
   \<and> snd (waitlistHandler failingEnv readyDatabase (formRequest ''POST'' ''not-an-email'' ''bot''))
       = (readyDatabase, [''failed to insert honeypot entry: disk I/O error''])"
proof -
  let ?r1 = "jsonRequest ''POST'' (Some (JObject [(''email'', JString []), (''nickname'', JString ''bot'')]))"
  let ?r2 = "formRequest ''POST'' ''not-an-email'' ''bot''"
  have m1: "Method ?r1 = ''POST''" and m2: "Method ?r2 = ''POST''"
    by simp_all
  have f1: "readFields ?r1 = Inr ([], ''bot'')" and f2: "readFields ?r2 = Inr (''not-an-email'', ''bot'')"
    by simp_all
  have t: "TrimSpace ''bot'' \<noteq> []"
    by simp
  obtain resp1 db1 log1 where r1: "waitlistHandler exampleEnv prunedDatabase ?r1 = (resp1, db1, log1)"
    by (cases "waitlistHandler exampleEnv prunedDatabase ?r1")
  obtain resp2 db2 log2 where r2: "waitlistHandler exampleEnv readyDatabase ?r2 = (resp2, db2, log2)"
    by (cases "waitlistHandler exampleEnv readyDatabase ?r2")
  obtain resp3 db3 log3 where r3: "waitlistHandler failingEnv readyDatabase ?r2 = (resp3, db3, log3)"
    by (cases "waitlistHandler failingEnv readyDatabase ?r2")
  have ok1: "fault exampleEnv OpInsert = None \<and> waitlist_honeypot prunedDatabase = Some []
      \<and> newRowid (map h_id []) (waitlist_honeypot_sequence prunedDatabase) = Some 5"
    by (simp add: example_defs)
  have ok2: "fault exampleEnv OpInsert = None \<and> waitlist_honeypot readyDatabase = Some []
      \<and> newRowid (map h_id []) (waitlist_honeypot_sequence readyDatabase) = Some 1"
    by (simp add: example_defs)
  have bad: "fst (insertHoneypot failingEnv readyDatabase (TrimSpace ''not-an-email'') (TrimSpace ''bot''))
      = Some ''disk I/O error''"
    by (simp add: example_defs insertHoneypot_def)
  from ok1 waitlistHandler_honeypot [OF m1 f1 t r1, where hrows = "[]"]
  have 1: "status resp1 = 201" "body resp1 = jsonMessage ''email accepted for waitlist''"
      "log1 = []"
      "db1 = prunedDatabase\<lparr> waitlist_honeypot := Some ([] @
                     [\<lparr> h_id = 5, h_email = TrimSpace [],
                        h_trap_value = TrimSpace ''bot'',
                        h_created_at = currentTimestamp exampleEnv \<rparr>]),
                   waitlist_honeypot_sequence := 5 \<rparr>"
    by simp_all
  from ok2 waitlistHandler_honeypot [OF m2 f2 t r2, where hrows = "[]"]
  have 2: "status resp2 = 201" "body resp2 = htmlPage ''email accepted for waitlist''"
      "log2 = []"
      "db2 = readyDatabase\<lparr> waitlist_honeypot := Some ([] @
                     [\<lparr> h_id = 1, h_email = TrimSpace ''not-an-email'',
                        h_trap_value = TrimSpace ''bot'',
                        h_created_at = currentTimestamp exampleEnv \<rparr>]),
                   waitlist_honeypot_sequence := 1 \<rparr>"
    by simp_all
  from bad waitlistHandler_honeypot [OF m2 f2 t r3, where hrows = "[]"]
  have 3: "status resp3 = 500" "db3 = readyDatabase"
      "log3 = [''failed to insert honeypot entry: disk I/O error'']"
    by simp_all
  have h1: "headers resp1 = [''Content-Type'' \<mapsto> ''application/json'']"
    using r1 by (auto simp add: waitlistHandler_def writeMessage_def Let_def
          split: sum.splits prod.splits option.splits if_splits)
  have h2: "headers resp2 = [''Content-Type'' \<mapsto> ''text/html; charset=utf-8'']"
    using r2 by (auto simp add: waitlistHandler_def writeMessage_def Let_def
          split: sum.splits prod.splits option.splits if_splits)
  have object: "jsonMessage ''email accepted for waitlist''
      = ''{'' @ [CHR 0x22] @ ''message'' @ [CHR 0x22] @ '':'' @ [CHR 0x22]
            @ ''email accepted for waitlist'' @ [CHR 0x22] @ ''}'' @ [CHR 0x0A]"
    by code_simp
  have page: "htmlPage ''email accepted for waitlist''
      = ''<!DOCTYPE html><html lang='' @ [CHR 0x22] @ ''en'' @ [CHR 0x22]
            @ ''><head><meta charset='' @ [CHR 0x22] @ ''utf-8'' @ [CHR 0x22]
            @ ''><title>Waitlist</title></head><body><main><h1>Waitlist</h1><p>''
            @ ''email accepted for waitlist''
            @ ''</p><p><a href='' @ [CHR 0x22] @ ''/'' @ [CHR 0x22]
            @ ''>Back to form</a></p></main></body></html>''"
    by code_simp
  from 1 h1 object have e1: "resp1 = \<lparr> status = 201,
          headers = [''Content-Type'' \<mapsto> ''application/json''],
          body = ''{'' @ [CHR 0x22] @ ''message'' @ [CHR 0x22] @ '':'' @ [CHR 0x22]
            @ ''email accepted for waitlist'' @ [CHR 0x22] @ ''}'' @ [CHR 0x0A] \<rparr>"
    by (cases resp1) simp
  from 2 h2 page have e2: "resp2 = \<lparr> status = 201,
          headers = [''Content-Type'' \<mapsto> ''text/html; charset=utf-8''],
          body = ''<!DOCTYPE html><html lang='' @ [CHR 0x22] @ ''en'' @ [CHR 0x22]
            @ ''><head><meta charset='' @ [CHR 0x22] @ ''utf-8'' @ [CHR 0x22]
            @ ''><title>Waitlist</title></head><body><main><h1>Waitlist</h1><p>''
            @ ''email accepted for waitlist''
            @ ''</p><p><a href='' @ [CHR 0x22] @ ''/'' @ [CHR 0x22]
            @ ''>Back to form</a></p></main></body></html>'' \<rparr>"
    by (cases resp2) simp
  from 1(4) have d1: "db1 = \<lparr> waitlist = Some [aliceEntry], waitlist_sequence = 7,
          waitlist_honeypot = Some [\<lparr> h_id = 5, h_email = [], h_trap_value = ''bot'',
                                     h_created_at = jan1 12 0 0 \<rparr>],
          waitlist_honeypot_sequence = 5 \<rparr>"
    by (simp add: example_defs)
  from 2(4) have d2: "db2 = \<lparr> waitlist = Some [], waitlist_sequence = 0,
          waitlist_honeypot = Some [\<lparr> h_id = 1, h_email = ''not-an-email'', h_trap_value = ''bot'',
                                     h_created_at = jan1 12 0 0 \<rparr>],
          waitlist_honeypot_sequence = 1 \<rparr>"
    by (simp add: example_defs)
  from r1 r2 r3 1 2 3 e1 e2 d1 d2 show ?thesis
    by simp
qed

section \<open>The submission handler: encoding of the request and of the response\<close>

lemma isJSON_Form_update [simp]: "isJSON (r\<lparr>Form := f\<rparr>) = isJSON r"
  by (simp add: isJSON_def)

lemma isJSON_Body_update [simp]: "isJSON (r\<lparr>Body := b\<rparr>) = isJSON r"
  by (simp add: isJSON_def)




lemma waitlistHandler_POST_writes_message:
  assumes "Method r = ''POST''"
  shows "\<exists>c m. fst (waitlistHandler e db r) = writeMessage c m (\<not> isJSON r)"
proof (cases "readFields r")
  case (Inl resp)
  then have "resp = writeMessage 400 ''invalid JSON body'' False \<and> isJSON r
      \<or> resp = writeMessage 400 ''invalid form data'' True \<and> \<not> isJSON r"
    by (auto simp add: readFields_def split: if_splits sum.splits)
  moreover from Inl assms have "fst (waitlistHandler e db r) = resp"
    by (simp add: waitlistHandler_def)
  ultimately have "fst (waitlistHandler e db r) = writeMessage 400 ''invalid JSON body'' (\<not> isJSON r)
      \<or> fst (waitlistHandler e db r) = writeMessage 400 ''invalid form data'' (\<not> isJSON r)"
    by auto
  then show ?thesis by blast
next
  case (Inr fields)
  obtain email0 trapValue0 where "fields = (email0, trapValue0)"
    by (cases fields)
  with Inr assms show ?thesis
    by (auto simp add: waitlistHandler_def Let_def split: prod.splits option.splits)
qed

text \<open>
  C4, as stated, covers every request to the endpoint whatever the status.  A request
  that is not a POST is answered through \<^verbatim>\<open>http.Error\<close>: status 405 with a
  plain-text body, whether it declared JSON (first request) or not (second).
\<close>

theorem waitlistHandler_non_POST_plain_text:
  "isJSON (jsonRequest ''GET'' None)
   \<and> \<not> jsonShaped (fst (waitlistHandler exampleEnv readyDatabase (jsonRequest ''GET'' None)))
   \<and> \<not> isJSON (formRequest ''GET'' ''a@example.com'' [])
   \<and> \<not> htmlShaped (fst (waitlistHandler exampleEnv readyDatabase
                            (formRequest ''GET'' ''a@example.com'' [])))
   \<and> status (fst (waitlistHandler exampleEnv readyDatabase (jsonRequest ''GET'' None))) = 405
   \<and> headers (fst (waitlistHandler exampleEnv readyDatabase (jsonRequest ''GET'' None)))
        ''Content-Type'' = Some ''text/plain; charset=utf-8''
   \<and> body (fst (waitlistHandler exampleEnv readyDatabase (jsonRequest ''GET'' None)))
        = ''method not allowed'' @ [LF]"
  by (simp add: waitlistHandler_def httpError_def jsonShaped_def htmlShaped_def LF_def)

text \<open>
  C4, amended.  For every POST to the submission endpoint, whatever the status: when
  the request is taken as JSON (\<^verbatim>\<open>isJSON\<close>) the response is JSON-shaped, its body the
  object \<^verbatim>\<open>{"message": ...}\<close>; otherwise the response is HTML-shaped, its body the
  page around the escaped message.
\<close>

theorem waitlistHandler_POST_body_shape:
  assumes "Method r = ''POST''"
  shows "(isJSON r \<longrightarrow>
            jsonShaped (fst (waitlistHandler e db r))
            \<and> (\<exists>m. body (fst (waitlistHandler e db r)) = jsonMessage m))
       \<and> (\<not> isJSON r \<longrightarrow>
            htmlShaped (fst (waitlistHandler e db r))
            \<and> (\<exists>m. body (fst (waitlistHandler e db r)) = htmlHead @ EscapeString m @ htmlTail))"
proof -
  from waitlistHandler_POST_writes_message [OF assms, of e db]
  obtain c m where w: "fst (waitlistHandler e db r) = writeMessage c m (\<not> isJSON r)"
    by blast
  show ?thesis
  proof (cases "isJSON r")
    case True
    with w have "fst (waitlistHandler e db r) = writeMessage c m False"
      by simp
    moreover have "body (writeMessage c m False) = jsonMessage m"
      by (simp add: writeMessage_def)
    ultimately show ?thesis
      using True jsonShaped_writeMessage [of c m] by auto
  next
    case False
    with w have "fst (waitlistHandler e db r) = writeMessage c m True"
      by simp
    moreover have "body (writeMessage c m True) = htmlHead @ EscapeString m @ htmlTail"
      by (simp add: writeMessage_def htmlPage_def)
    ultimately show ?thesis
      using False htmlShaped_writeMessage [of c m] by auto
  qed
qed

text \<open>
  A JSON submission answered 201, a JSON request with a malformed body answered 400,
  and a form submission answered 409.
\<close>

theorem waitlistHandler_POST_body_shape_witness:
  "jsonShaped (fst (waitlistHandler exampleEnv aliceDatabase
       (jsonRequest ''POST'' (Some (JObject [(''email'', JString ''b@example.com'')])))))
   \<and> jsonShaped (fst (waitlistHandler exampleEnv aliceDatabase (jsonRequest ''POST'' None)))
   \<and> status (fst (waitlistHandler exampleEnv aliceDatabase (jsonRequest ''POST'' None))) = 400
   \<and> htmlShaped (fst (waitlistHandler exampleEnv aliceDatabase
       (formRequest ''POST'' ''a@example.com'' [])))
   \<and> status (fst (waitlistHandler exampleEnv aliceDatabase
       (formRequest ''POST'' ''a@example.com'' []))) = 409"
proof -
  let ?r1 = "jsonRequest ''POST'' (Some (JObject [(''email'', JString ''b@example.com'')]))"
  let ?r2 = "jsonRequest ''POST'' None"
  let ?r3 = "formRequest ''POST'' ''a@example.com'' []"
  have m: "Method ?r1 = ''POST''" "Method ?r2 = ''POST''" "Method ?r3 = ''POST''"
    by simp_all
  have j: "isJSON ?r1" "isJSON ?r2" "\<not> isJSON ?r3"
    by simp_all
  have s2: "status (fst (waitlistHandler exampleEnv aliceDatabase ?r2)) = 400"
    by (simp add: waitlistHandler_def readFields_def) (simp add: jsonRequest_def)
  have s3: "status (fst (waitlistHandler exampleEnv aliceDatabase ?r3)) = 409"
    by (simp add: waitlistHandler_def insertWaitlist_def example_defs)
  from j s2 s3
    waitlistHandler_POST_body_shape [OF m(1), of exampleEnv aliceDatabase]
    waitlistHandler_POST_body_shape [OF m(2), of exampleEnv aliceDatabase]
    waitlistHandler_POST_body_shape [OF m(3), of exampleEnv aliceDatabase]
  show ?thesis by blast
qed





section \<open>The honeypot revision against the revision before it\<close>

lemma decodeMembers_blank_trap:
  assumes "list_all (\<lambda>(k, v). foldMatches k ''NICKNAME'' \<longrightarrow> blankValue v) ms"
    and "TrimSpace (Trap p) = []"
  shows "fst (decodeMembers ms (failed, p))
           = fst (decodeMembers_prev ms (failed, \<lparr>Email_prev = Email p\<rparr>))
       \<and> Email (snd (decodeMembers ms (failed, p)))
           = Email_prev (snd (decodeMembers_prev ms (failed, \<lparr>Email_prev = Email p\<rparr>)))
       \<and> TrimSpace (Trap (snd (decodeMembers ms (failed, p)))) = []"
  using assms
proof (induction ms arbitrary: failed p)
  case Nil
  then show ?case by simp
next
  case (Cons kv ms)
  obtain k v where kv: "kv = (k, v)"
    by (cases kv)
  from Cons.prems kv have rest: "list_all (\<lambda>(k, v). foldMatches k ''NICKNAME'' \<longrightarrow> blankValue v) ms"
    and here: "foldMatches k ''NICKNAME'' \<longrightarrow> blankValue v"
    by simp_all
  show ?case
  proof (cases "foldMatches k ''EMAIL''")
    case True
    show ?thesis
    proof (cases "storeString v (Email p)")
      case None
      with True kv Cons.IH [OF rest Cons.prems(2), of True] show ?thesis
        by simp
    next
      case (Some s)
      from Cons.prems(2) have "TrimSpace (Trap (p\<lparr>Email := s\<rparr>)) = []"
        by simp
      from Cons.IH [OF rest this, of failed] Some True kv show ?thesis
        by simp
    qed
  next
    case notEmail: False
    show ?thesis
    proof (cases "foldMatches k ''NICKNAME''")
      case False
      with notEmail kv Cons.IH [OF rest Cons.prems(2), of failed] show ?thesis
        by simp
    next
      case True
      with here have "blankValue v"
        by simp
      then obtain s where s: "storeString v (Trap p) = Some s" "TrimSpace s = []"
        using Cons.prems(2) by (cases v) (simp_all add: blankValue_def)
      from s(2) have "TrimSpace (Trap (p\<lparr>Trap := s\<rparr>)) = []"
        by simp
      from Cons.IH [OF rest this, of failed] s(1) True notEmail kv show ?thesis
        by simp
    qed
  qed
qed

lemma Decode_blank_trap:
  assumes "list_all (\<lambda>(k, v). foldMatches k ''NICKNAME'' \<longrightarrow> blankValue v) ms"
  shows "case Decode (Some (JObject ms)) of
           Inl err \<Rightarrow> Decode_prev (Some (JObject ms)) = Inl err
         | Inr payload \<Rightarrow>
             Decode_prev (Some (JObject ms)) = Inr \<lparr>Email_prev = Email payload\<rparr>
             \<and> TrimSpace (Trap payload) = []"
proof -
  let ?new = "decodeMembers ms (False, \<lparr>Email = [], Trap = []\<rparr>)"
  let ?old = "decodeMembers_prev ms (False, \<lparr>Email_prev = []\<rparr>)"
  have "TrimSpace (Trap \<lparr>Email = [], Trap = []\<rparr>) = []"
    by simp
  from decodeMembers_blank_trap [OF assms this, of False]
  have rel: "fst ?new = fst ?old" "Email (snd ?new) = Email_prev (snd ?old)"
      "TrimSpace (Trap (snd ?new)) = []"
    by simp_all
  obtain f p where new: "?new = (f, p)"
    by (cases ?new)
  obtain f' p' where old: "?old = (f', p')"
    by (cases ?old)
  from rel new old have "f' = f" "Email_prev p' = Email p" "TrimSpace (Trap p) = []"
    by simp_all
  moreover from \<open>Email_prev p' = Email p\<close> have "p' = \<lparr>Email_prev = Email p\<rparr>"
    by (cases p') simp
  ultimately show ?thesis
    using new old by (cases f) simp_all
qed

lemma readFields_blank_trap:
  assumes "trapAbsentOrBlank r"
  shows "case readFields r of
           Inl resp \<Rightarrow> readFields_prev r = Inl resp
         | Inr (email0, trapValue0) \<Rightarrow>
             readFields_prev r = Inr email0 \<and> TrimSpace trapValue0 = []"
proof (cases "isJSON r")
  case False
  with assms show ?thesis
    by (auto simp add: readFields_def readFields_prev_def trapAbsentOrBlank_def split: sum.splits)
next
  case True
  show ?thesis
  proof (cases "Body r")
    case None
    with True show ?thesis
      by (simp add: readFields_def readFields_prev_def)
  next
    case (Some j)
    show ?thesis
    proof (cases j)
      case (JObject ms)
      with assms True Some
      have "list_all (\<lambda>(k, v). foldMatches k ''NICKNAME'' \<longrightarrow> blankValue v) ms"
        by (simp add: trapAbsentOrBlank_def)
      from Decode_blank_trap [OF this] True Some JObject show ?thesis
        by (auto simp add: readFields_def readFields_prev_def split: sum.splits)
    qed (use True Some in \<open>simp_all add: readFields_def readFields_prev_def\<close>)
  qed
qed

text \<open>
  C10.  On every request whose trap field is absent or blank (the form value
  \<^verbatim>\<open>nickname\<close> trims to the empty string; in a JSON object every \<^verbatim>\<open>nickname\<close> member
  is \<^verbatim>\<open>null\<close> or a string that trims to the empty string), the handler of the honeypot
  revision returns what the handler of the revision before it returns: the same
  response (status, headers and body, hence the message), the same database (hence
  the same primary table) and the same log lines.
\<close>

theorem waitlistHandler_refines_prev:
  assumes "trapAbsentOrBlank r"
  shows "waitlistHandler e db r = waitlistHandler_prev e db r"
proof (cases "readFields r")
  case (Inl resp)
  with readFields_blank_trap [OF assms] have "readFields_prev r = Inl resp"
    by simp
  with Inl show ?thesis
    by (simp add: waitlistHandler_def waitlistHandler_prev_def)
next
  case (Inr fields)
  obtain email0 trapValue0 where f: "fields = (email0, trapValue0)"
    by (cases fields)
  with Inr readFields_blank_trap [OF assms]
  have "readFields_prev r = Inr email0" "TrimSpace trapValue0 = []"
    by simp_all
  with Inr f show ?thesis
    by (simp add: waitlistHandler_def waitlistHandler_prev_def)
qed

text \<open>
  A JSON submission with a blank \<^verbatim>\<open>nickname\<close> and a form submission without one: both
  revisions store the email, respectively answer 409.
\<close>

theorem waitlistHandler_refines_prev_witness:
  "trapAbsentOrBlank (jsonRequest ''POST''
       (Some (JObject [(''email'', JString ''b@example.com''), (''nickname'', JString ''  '')])))
   \<and> waitlistHandler_prev exampleEnv aliceDatabase (jsonRequest ''POST''
       (Some (JObject [(''email'', JString ''b@example.com''), (''nickname'', JString ''  '')])))
     = waitlistHandler exampleEnv aliceDatabase (jsonRequest ''POST''
       (Some (JObject [(''email'', JString ''b@example.com''), (''nickname'', JString ''  '')])))
   \<and> status (fst (waitlistHandler_prev exampleEnv aliceDatabase (jsonRequest ''POST''
       (Some (JObject [(''email'', JString ''b@example.com''), (''nickname'', JString ''  '')])))))
     = 201
   \<and> trapAbsentOrBlank (formRequest ''POST'' ''a@example.com'' [])
   \<and> waitlistHandler_prev exampleEnv aliceDatabase (formRequest ''POST'' ''a@example.com'' [])
     = waitlistHandler exampleEnv aliceDatabase (formRequest ''POST'' ''a@example.com'' [])
   \<and> status (fst (waitlistHandler_prev exampleEnv aliceDatabase
                     (formRequest ''POST'' ''a@example.com'' []))) = 409"
proof -
  let ?r1 = "jsonRequest ''POST''
       (Some (JObject [(''email'', JString ''b@example.com''), (''nickname'', JString ''  '')]))"
  let ?r2 = "formRequest ''POST'' ''a@example.com'' []"
  have b1: "trapAbsentOrBlank ?r1"
    by (simp add: trapAbsentOrBlank_def)
       (simp add: jsonRequest_def blankValue_def)
  have b2: "trapAbsentOrBlank ?r2"
    by (simp add: trapAbsentOrBlank_def)
       (simp add: formRequest_def FormValue_def)
  have s1: "status (fst (waitlistHandler exampleEnv aliceDatabase ?r1)) = 201"
    by (simp add: waitlistHandler_def insertWaitlist_def example_defs)
  have s2: "status (fst (waitlistHandler exampleEnv aliceDatabase ?r2)) = 409"
    by (simp add: waitlistHandler_def insertWaitlist_def example_defs)
  from b1 b2 s1 s2
    waitlistHandler_refines_prev [OF b1, of exampleEnv aliceDatabase]
    waitlistHandler_refines_prev [OF b2, of exampleEnv aliceDatabase]
  show ?thesis by simp
qed

section \<open>The routes of the running server\<close>

text \<open>
  C9.  \<^verbatim>\<open>runAPIServer\<close> of the honeypot revision registers the API route only;
  \<^verbatim>\<open>serveIndex\<close> is defined but never registered.  On the running server a GET for
  \<^verbatim>\<open>/\<close> is therefore answered by the multiplexer with 404, and so is any other method
  for \<^verbatim>\<open>/\<close>: the form file is not served and no 405 with \<^verbatim>\<open>Allow: GET\<close> is sent.
\<close>

theorem runAPIServer_root_not_found:
  "serveRequest runAPIServer_routes e db (rootRequest ''GET'') = (Written NotFound, db, [])
   \<and> serveRequest runAPIServer_routes e db (rootRequest ''POST'') = (Written NotFound, db, [])
   \<and> status NotFound = 404
   \<and> serveIndex (rootRequest ''GET'') = ServedFile ''index.html''"
  by (simp add: serveRequest_def muxHandler_def muxMatch_def redirectToPathSlash_def
        runAPIServer_routes_def rootRequest_def cleanPath_def NotFound_def httpError_def
        serveIndex_def)

text \<open>
  The revision before it registers both handlers: there the root path reaches
  \<^verbatim>\<open>serveIndex\<close>, which serves the form file to a GET, answers another method with 405
  and \<^verbatim>\<open>Allow: GET\<close>, and answers every other path that is routed to it with 404.
\<close>

lemma runAPIServer_prev_serves_root:
  "serveRequest runAPIServer_routes_prev e db (rootRequest ''GET'')
     = (ServedFile ''index.html'', db, [])
   \<and> (\<exists>resp. serveRequest runAPIServer_routes_prev e db (rootRequest ''POST'')
                 = (Written resp, db, [])
         \<and> status resp = 405 \<and> headers resp ''Allow'' = Some ''GET'')"
  by (simp add: serveRequest_def muxHandler_def muxMatch_def redirectToPathSlash_def
        runAPIServer_routes_prev_def rootRequest_def cleanPath_def httpError_def
        serveIndex_def)

lemma serveIndex_cases:
  "serveIndex r =
     (if URLPath r \<noteq> ''/'' then Written NotFound
      else if Method r = ''GET'' then ServedFile ''index.html''
      else Written (httpError [''Allow'' \<mapsto> ''GET''] ''method not allowed'' 405))"
  by (simp add: serveIndex_def)

text \<open>
  On the server of the honeypot revision every canonical path other than the API route
  is answered 404, the root path included.
\<close>

lemma runAPIServer_other_paths_not_found:
  assumes "Method r \<noteq> ''CONNECT''"
    and "cleanPath (URLPath r) = URLPath r"
    and "URLPath r \<noteq> ''/api/v1/waitlist''"
  shows "serveRequest runAPIServer_routes e db r = (Written NotFound, db, [])"
proof -
  have "last (URLPath r @ ''/'') \<noteq> last ''/api/v1/waitlist''"
    by simp
  then have "URLPath r @ ''/'' \<noteq> ''/api/v1/waitlist''"
    by metis
  with assms show ?thesis
    by (simp add: serveRequest_def muxHandler_def muxMatch_def redirectToPathSlash_def
          runAPIServer_routes_def)
qed

section \<open>The listing routine\<close>

lemma printRows_Inr:
  "printRows e header lines placeholder = Inr written \<Longrightarrow>
     written = header # (if lines = [] then [placeholder] else lines)"
  by (auto simp add: printRows_def split: option.splits if_splits)

lemma printRows_no_fault:
  "fault e = (\<lambda>op. None) \<Longrightarrow>
     printRows e header lines placeholder
       = Inr (header # (if lines = [] then [placeholder] else lines))"
  by (simp add: printRows_def)

lemma sort_key_eq_Nil [simp]: "sort_key f xs = [] \<longleftrightarrow> xs = []"
proof
  assume "sort_key f xs = []"
  then have "length (sort_key f xs) = 0"
    by simp
  then show "xs = []"
    by simp
qed simp

lemma waitlist_execSchema:
  "waitlist (execSchema db) = Some (case waitlist db of None \<Rightarrow> [] | Some rows \<Rightarrow> rows)"
  by (simp add: execSchema_def)

lemma honeypot_execSchema:
  "waitlist_honeypot (execSchema db)
     = Some (case waitlist_honeypot db of None \<Rightarrow> [] | Some rows \<Rightarrow> rows)"
  by (simp add: execSchema_def)

lemma execSchema_idem: "execSchema (execSchema db) = execSchema db"
  by (simp add: execSchema_def)

lemma queryAndPrint_Inr:
  assumes "queryAndPrint e (execSchema db) honeypotOnly = Inr written"
  shows "written =
     (if honeypotOnly then
        (let rows = (case waitlist_honeypot db of None \<Rightarrow> [] | Some rows \<Rightarrow> rows)
         in honeypotHeader # (if rows = [] then [honeypotPlaceholder]
              else map honeypotLine (sort_key (\<lambda>x. (storedText (h_created_at x), h_id x)) rows)))
      else
        (let rows = (case waitlist db of None \<Rightarrow> [] | Some rows \<Rightarrow> rows)
         in waitlistHeader # (if rows = [] then [waitlistPlaceholder]
              else map waitlistLine (sort_key (\<lambda>x. (storedText (w_created_at x), w_id x)) rows))))"
proof (cases honeypotOnly)
  case True
  with assms obtain ls where "printRows e honeypotHeader ls honeypotPlaceholder = Inr written"
    and "ls = map honeypotLine (sort_key (\<lambda>x. (storedText (h_created_at x), h_id x))
                  (case waitlist_honeypot db of None \<Rightarrow> [] | Some rows \<Rightarrow> rows))"
    by (auto simp add: queryAndPrint_def queryHoneypot_def honeypot_execSchema
          split: option.splits)
  with True printRows_Inr [of e honeypotHeader ls honeypotPlaceholder written] show ?thesis
    by (simp add: Let_def)
next
  case False
  with assms obtain ls where "printRows e waitlistHeader ls waitlistPlaceholder = Inr written"
    and "ls = map waitlistLine (sort_key (\<lambda>x. (storedText (w_created_at x), w_id x))
                  (case waitlist db of None \<Rightarrow> [] | Some rows \<Rightarrow> rows))"
    by (auto simp add: queryAndPrint_def queryWaitlist_def waitlist_execSchema
          split: option.splits)
  with False printRows_Inr [of e waitlistHeader ls waitlistPlaceholder written] show ?thesis
    by (simp add: Let_def)
qed

lemma queryAndPrint_no_fault:
  assumes "fault e = (\<lambda>op. None)"
  shows "\<exists>written. queryAndPrint e (execSchema db) honeypotOnly = Inr written"
  using assms
  by (simp add: queryAndPrint_def queryHoneypot_def queryWaitlist_def honeypot_execSchema
        waitlist_execSchema printRows_no_fault)

lemma listWaitlistEntries_Inr:
  assumes "fst (listWaitlistEntries e files override honeypotOnly) = Inr written"
  shows "queryAndPrint e (execSchema (openDatabase files (resolveDatabasePath e override)))
           honeypotOnly = Inr written"
  using assms
  by (auto simp add: listWaitlistEntries_def initializeDatabase_def Let_def
        split: option.splits if_splits sum.splits)

lemma listWaitlistEntries_no_fault:
  assumes "fault e = (\<lambda>op. None)"
    and "dbPath = resolveDatabasePath e override"
    and "dbPath = '':memory:'' \<or> HasPrefix dbPath ''file:'' \<or> files dbPath \<noteq> None"
  shows "listWaitlistEntries e files override honeypotOnly
     = (queryAndPrint e (execSchema (openDatabase files dbPath)) honeypotOnly,
        storeDatabase files dbPath (execSchema (openDatabase files dbPath)))"
  using assms
  by (auto simp add: listWaitlistEntries_def initializeDatabase_def Let_def)

lemma sorted_by_created_then_id:
  fixes created :: "'a \<Rightarrow> string" and ident :: "'a \<Rightarrow> int"
  shows "sorted_wrt (\<lambda>a b. created a < created b \<or> (created a = created b \<and> ident a \<le> ident b))
           (sort_key (\<lambda>x. (created x, ident x)) rows)"
proof -
  have "sorted (map (\<lambda>x. (created x, ident x)) (sort_key (\<lambda>x. (created x, ident x)) rows))"
    by (rule sorted_sort_key)
  then have "sorted_wrt (\<lambda>a b. (created a, ident a) \<le> (created b, ident b))
               (sort_key (\<lambda>x. (created x, ident x)) rows)"
    by (simp add: sorted_map)
  then show ?thesis
    by (rule sorted_wrt_mono_rel [rotated]) (auto simp add: less_eq_prod_def)
qed

lemma columnCount_lines:
  "columnCount waitlistHeader = 3" "columnCount waitlistPlaceholder = 3"
  "columnCount honeypotHeader = 4" "columnCount honeypotPlaceholder = 4"
  by (simp_all add: columnCount_def waitlistHeader_def waitlistPlaceholder_def
        honeypotHeader_def honeypotPlaceholder_def TAB_def LF_def)

text \<open>The timestamps and orderings of the concrete inputs.\<close>

lemma storedText_examples [simp]:
  "storedText (jan1 9 0 0) = ''2025-01-01 09:00:00''"
  "storedText (jan1 10 0 0) = ''2025-01-01 10:00:00''"
  "storedText (jan1 10 30 5) = ''2025-01-01 10:30:05''"
  by (simp_all add: storedText_def dateText_def timeText_def zeroPad_def jan1_def
        decimal.simps char_of_eq_iff)

lemma scannedText_examples [simp]:
  "scannedText (jan1 9 0 0) = ''2025-01-01T09:00:00Z''"
  "scannedText (jan1 10 0 0) = ''2025-01-01T10:00:00Z''"
  "scannedText (jan1 10 30 5) = ''2025-01-01T10:30:05Z''"
  by (simp_all add: scannedText_def storedText_def dateText_def timeText_def zeroPad_def
        jan1_def validTimestamp_def daysIn_def leapYear_def decimal.simps char_of_eq_iff)

lemma fmtInt_examples [simp]:
  "fmtInt 1 = ''1''" "fmtInt 2 = ''2''" "fmtInt 3 = ''3''" "fmtInt 4 = ''4''" "fmtInt 5 = ''5''"
  by (simp_all add: fmtInt_def decimal.simps char_of_eq_iff)

lemma sort_key_collidingRows:
  "sort_key (\<lambda>x. (storedText (w_created_at x), w_id x)) collidingRows
     = [\<lparr> w_id = 3, w_email = ''c@example.com'', w_created_at = jan1 9 0 0 \<rparr>,
        \<lparr> w_id = 1, w_email = ''b@example.com'', w_created_at = jan1 10 0 0 \<rparr>,
        \<lparr> w_id = 2, w_email = ''a@example.com'', w_created_at = jan1 10 0 0 \<rparr>]"
  by (simp add: collidingRows_def less_eq_prod_def)

lemma sort_key_trappedRows:
  "sort_key (\<lambda>x. (storedText (h_created_at x), h_id x)) trappedRows
     = [\<lparr> h_id = 4, h_email = ''not-an-email'', h_trap_value = ''x'', h_created_at = jan1 10 30 5 \<rparr>,
        \<lparr> h_id = 5, h_email = [], h_trap_value = ''bot'', h_created_at = jan1 10 30 5 \<rparr>]"
  by (simp add: trappedRows_def less_eq_prod_def)

text \<open>
  C7.  Whenever the listing succeeds, what it writes is the header of the selected
  table followed by one line per row of that table, the rows in ascending order of
  \<^verbatim>\<open>created_at\<close> (the stored texts compared as SQLite compares them) and, among
  equal timestamps, of \<^verbatim>\<open>id\<close>; when the table has no row (or did not exist before
  the schema statement), the header is followed by exactly one placeholder line.  The
  placeholder has as many cells as the header: 3 for the primary table, 4 for the
  honeypot table.  This holds for every database stored under the path; and the listing
  does succeed when no storage operation fails and the path passes the existence check.
\<close>

theorem listWaitlistEntries_ordered:
  assumes "stored = openDatabase files (resolveDatabasePath e override)"
    and "wrows = (case waitlist stored of None \<Rightarrow> [] | Some rows \<Rightarrow> rows)"
    and "hrows = (case waitlist_honeypot stored of None \<Rightarrow> [] | Some rows \<Rightarrow> rows)"
  shows
   "(fst (listWaitlistEntries e files override False) = Inr written \<longrightarrow>
       (\<exists>ordered. mset ordered = mset wrows
          \<and> sorted_wrt (\<lambda>a b. storedText (w_created_at a) < storedText (w_created_at b)
                \<or> (storedText (w_created_at a) = storedText (w_created_at b)
                    \<and> w_id a \<le> w_id b)) ordered
          \<and> written = waitlistHeader #
                (if wrows = [] then [waitlistPlaceholder]
                 else map (\<lambda>x. fmtInt (w_id x) @ [TAB] @ w_email x @ [TAB]
                                  @ scannedText (w_created_at x) @ [LF]) ordered)))
  \<and> (fst (listWaitlistEntries e files override True) = Inr written \<longrightarrow>
       (\<exists>ordered. mset ordered = mset hrows
          \<and> sorted_wrt (\<lambda>a b. storedText (h_created_at a) < storedText (h_created_at b)
                \<or> (storedText (h_created_at a) = storedText (h_created_at b)
                    \<and> h_id a \<le> h_id b)) ordered
          \<and> written = honeypotHeader #
                (if hrows = [] then [honeypotPlaceholder]
                 else map (\<lambda>x. fmtInt (h_id x) @ [TAB] @ h_email x @ [TAB]
                                  @ h_trap_value x @ [TAB]
                                  @ scannedText (h_created_at x) @ [LF]) ordered)))
  \<and> columnCount waitlistPlaceholder = columnCount waitlistHeader
  \<and> columnCount waitlistHeader = 3
  \<and> columnCount honeypotPlaceholder = columnCount honeypotHeader
  \<and> columnCount honeypotHeader = 4
  \<and> (fault e = (\<lambda>op. None)
       \<and> (resolveDatabasePath e override = '':memory:''
           \<or> HasPrefix (resolveDatabasePath e override) ''file:''
           \<or> files (resolveDatabasePath e override) \<noteq> None) \<longrightarrow>
       (\<exists>out. fst (listWaitlistEntries e files override honeypotOnly) = Inr out))"
proof (intro conjI impI)
  assume "fst (listWaitlistEntries e files override False) = Inr written"
  from queryAndPrint_Inr [OF listWaitlistEntries_Inr [OF this]] assms
  have "written = waitlistHeader # (if wrows = [] then [waitlistPlaceholder]
              else map waitlistLine (sort_key (\<lambda>x. (storedText (w_created_at x), w_id x)) wrows))"
    by (simp add: Let_def)
  moreover have "waitlistLine = (\<lambda>x. fmtInt (w_id x) @ [TAB] @ w_email x @ [TAB]
                                  @ scannedText (w_created_at x) @ [LF])"
    by (rule ext) (simp add: waitlistLine_def)
  ultimately show "\<exists>ordered. mset ordered = mset wrows
          \<and> sorted_wrt (\<lambda>a b. storedText (w_created_at a) < storedText (w_created_at b)
                \<or> (storedText (w_created_at a) = storedText (w_created_at b)
                    \<and> w_id a \<le> w_id b)) ordered
          \<and> written = waitlistHeader #
                (if wrows = [] then [waitlistPlaceholder]
                 else map (\<lambda>x. fmtInt (w_id x) @ [TAB] @ w_email x @ [TAB]
                                  @ scannedText (w_created_at x) @ [LF]) ordered)"
    using sorted_by_created_then_id [of "\<lambda>x. storedText (w_created_at x)" w_id wrows]
    by (intro exI [of _ "sort_key (\<lambda>x. (storedText (w_created_at x), w_id x)) wrows"]) simp
next
  assume "fst (listWaitlistEntries e files override True) = Inr written"
  from queryAndPrint_Inr [OF listWaitlistEntries_Inr [OF this]] assms
  have "written = honeypotHeader # (if hrows = [] then [honeypotPlaceholder]
              else map honeypotLine (sort_key (\<lambda>x. (storedText (h_created_at x), h_id x)) hrows))"
    by (simp add: Let_def)
  moreover have "honeypotLine = (\<lambda>x. fmtInt (h_id x) @ [TAB] @ h_email x @ [TAB]
                                  @ h_trap_value x @ [TAB]
                                  @ scannedText (h_created_at x) @ [LF])"
    by (rule ext) (simp add: honeypotLine_def)
  ultimately show "\<exists>ordered. mset ordered = mset hrows
          \<and> sorted_wrt (\<lambda>a b. storedText (h_created_at a) < storedText (h_created_at b)
                \<or> (storedText (h_created_at a) = storedText (h_created_at b)
                    \<and> h_id a \<le> h_id b)) ordered
          \<and> written = honeypotHeader #
                (if hrows = [] then [honeypotPlaceholder]
                 else map (\<lambda>x. fmtInt (h_id x) @ [TAB] @ h_email x @ [TAB]
                                  @ h_trap_value x @ [TAB]
                                  @ scannedText (h_created_at x) @ [LF]) ordered)"
    using sorted_by_created_then_id [of "\<lambda>x. storedText (h_created_at x)" h_id hrows]
    by (intro exI [of _ "sort_key (\<lambda>x. (storedText (h_created_at x), h_id x)) hrows"]) simp
next
  assume ok: "fault e = (\<lambda>op. None)
       \<and> (resolveDatabasePath e override = '':memory:''
           \<or> HasPrefix (resolveDatabasePath e override) ''file:''
           \<or> files (resolveDatabasePath e override) \<noteq> None)"
  then have "listWaitlistEntries e files override honeypotOnly
     = (queryAndPrint e (execSchema (openDatabase files (resolveDatabasePath e override))) honeypotOnly,
        storeDatabase files (resolveDatabasePath e override)
          (execSchema (openDatabase files (resolveDatabasePath e override))))"
    by (intro listWaitlistEntries_no_fault) simp_all
  with ok queryAndPrint_no_fault [of e "openDatabase files (resolveDatabasePath e override)" honeypotOnly]
  show "\<exists>out. fst (listWaitlistEntries e files override honeypotOnly) = Inr out"
    by simp
qed (simp_all add: columnCount_lines)

text \<open>
  Rows stored out of order, two of them with the same timestamp, in both tables.  The
  primary listing prints id 3 (earlier timestamp) first, then ids 1 and 2; the honeypot
  listing prints id 4 before id 5, the first with an empty email cell.  The timestamps
  appear in the RFC 3339 layout.  Empty tables give the header and the placeholder.
\<close>

theorem listWaitlistEntries_ordered_witness:
  "fst (listWaitlistEntries exampleEnv [''waitlist.db'' \<mapsto> collidingDatabase] [] False)
     = Inr [''ID'' @ [CHR 0x09] @ ''Email'' @ [CHR 0x09] @ ''Created At'' @ [CHR 0x0A],
            ''3'' @ [CHR 0x09] @ ''c@example.com'' @ [CHR 0x09] @ ''2025-01-01T09:00:00Z'' @ [CHR 0x0A],
            ''1'' @ [CHR 0x09] @ ''b@example.com'' @ [CHR 0x09] @ ''2025-01-01T10:00:00Z'' @ [CHR 0x0A],
            ''2'' @ [CHR 0x09] @ ''a@example.com'' @ [CHR 0x09] @ ''2025-01-01T10:00:00Z'' @ [CHR 0x0A]]
   \<and> fst (listWaitlistEntries exampleEnv [''waitlist.db'' \<mapsto> collidingDatabase] [] True)
     = Inr [''ID'' @ [CHR 0x09] @ ''Email'' @ [CHR 0x09] @ ''Trap Value'' @ [CHR 0x09]
              @ ''Created At'' @ [CHR 0x0A],
            ''4'' @ [CHR 0x09] @ ''not-an-email'' @ [CHR 0x09] @ ''x'' @ [CHR 0x09]
              @ ''2025-01-01T10:30:05Z'' @ [CHR 0x0A],
            ''5'' @ [CHR 0x09] @ [CHR 0x09] @ ''bot'' @ [CHR 0x09]
              @ ''2025-01-01T10:30:05Z'' @ [CHR 0x0A]]
   \<and> fst (listWaitlistEntries exampleEnv [''waitlist.db'' \<mapsto> readyDatabase] [] False)
     = Inr [''ID'' @ [CHR 0x09] @ ''Email'' @ [CHR 0x09] @ ''Created At'' @ [CHR 0x0A],
            ''(no entries)'' @ [CHR 0x09, CHR 0x09] @ [CHR 0x0A]]
   \<and> fst (listWaitlistEntries exampleEnv [''waitlist.db'' \<mapsto> readyDatabase] [] True)
     = Inr [''ID'' @ [CHR 0x09] @ ''Email'' @ [CHR 0x09] @ ''Trap Value'' @ [CHR 0x09]
              @ ''Created At'' @ [CHR 0x0A],
            ''(no honeypot entries)'' @ [CHR 0x09, CHR 0x09, CHR 0x09] @ [CHR 0x0A]]"
proof -
  let ?files = "[''waitlist.db'' \<mapsto> collidingDatabase]"
  let ?empty = "[''waitlist.db'' \<mapsto> readyDatabase]"
  let ?wh = "''ID'' @ [CHR 0x09] @ ''Email'' @ [CHR 0x09] @ ''Created At'' @ [CHR 0x0A]"
  let ?hh = "''ID'' @ [CHR 0x09] @ ''Email'' @ [CHR 0x09] @ ''Trap Value'' @ [CHR 0x09]
              @ ''Created At'' @ [CHR 0x0A]"
  let ?l3 = "''3'' @ [CHR 0x09] @ ''c@example.com'' @ [CHR 0x09] @ ''2025-01-01T09:00:00Z'' @ [CHR 0x0A]"
  let ?l1 = "''1'' @ [CHR 0x09] @ ''b@example.com'' @ [CHR 0x09] @ ''2025-01-01T10:00:00Z'' @ [CHR 0x0A]"
  let ?l2 = "''2'' @ [CHR 0x09] @ ''a@example.com'' @ [CHR 0x09] @ ''2025-01-01T10:00:00Z'' @ [CHR 0x0A]"
  let ?h4 = "''4'' @ [CHR 0x09] @ ''not-an-email'' @ [CHR 0x09] @ ''x'' @ [CHR 0x09]
              @ ''2025-01-01T10:30:05Z'' @ [CHR 0x0A]"
  let ?h5 = "''5'' @ [CHR 0x09] @ [CHR 0x09] @ ''bot'' @ [CHR 0x09]
              @ ''2025-01-01T10:30:05Z'' @ [CHR 0x0A]"
  have p: "resolveDatabasePath exampleEnv [] = ''waitlist.db''"
    by (simp add: resolveDatabasePath_def databasePath_def exampleEnv_def)
  have s: "collidingDatabase = openDatabase ?files (resolveDatabasePath exampleEnv [])"
    by (simp add: p openDatabase_def)
  have w: "collidingRows = (case waitlist collidingDatabase of None \<Rightarrow> [] | Some rows \<Rightarrow> rows)"
    by (simp add: collidingDatabase_def)
  have h: "trappedRows = (case waitlist_honeypot collidingDatabase of None \<Rightarrow> [] | Some rows \<Rightarrow> rows)"
    by (simp add: collidingDatabase_def)
  have s0: "readyDatabase = openDatabase ?empty (resolveDatabasePath exampleEnv [])"
    by (simp add: p openDatabase_def)
  have w0: "[] = (case waitlist readyDatabase of None \<Rightarrow> [] | Some rows \<Rightarrow> rows)"
    by (simp add: example_defs)
  have h0: "[] = (case waitlist_honeypot readyDatabase of None \<Rightarrow> [] | Some rows \<Rightarrow> rows)"
    by (simp add: example_defs)
  have f: "fault exampleEnv = (\<lambda>op. None) \<and> (resolveDatabasePath exampleEnv [] = '':memory:''
           \<or> HasPrefix (resolveDatabasePath exampleEnv []) ''file:''
           \<or> ?empty (resolveDatabasePath exampleEnv []) \<noteq> None)"
    by (simp add: p) (simp add: exampleEnv_def)
  have fc: "fault exampleEnv = (\<lambda>op. None)"
    by (simp add: exampleEnv_def)
  have pc: "''waitlist.db'' = resolveDatabasePath exampleEnv []"
    by (simp add: p)
  have "?files ''waitlist.db'' \<noteq> None"
    by simp
  then have ec: "''waitlist.db'' = '':memory:'' \<or> HasPrefix ''waitlist.db'' ''file:''
      \<or> ?files ''waitlist.db'' \<noteq> None"
    by blast
  note run = listWaitlistEntries_no_fault [where files = ?files, OF fc pc ec]
  have st: "execSchema (openDatabase ?files ''waitlist.db'') = collidingDatabase"
    by (simp add: openDatabase_def execSchema_def collidingDatabase_def)
  have q1: "queryAndPrint exampleEnv collidingDatabase False = Inr [?wh, ?l3, ?l1, ?l2]"
    by (simp add: queryAndPrint_def queryWaitlist_def printRows_no_fault [OF fc] fc
          collidingDatabase_def sort_key_collidingRows waitlistLine_def waitlistHeader_def
          TAB_def LF_def)
  have q2: "queryAndPrint exampleEnv collidingDatabase True = Inr [?hh, ?h4, ?h5]"
    by (simp add: queryAndPrint_def queryHoneypot_def printRows_no_fault [OF fc] fc
          collidingDatabase_def sort_key_trappedRows honeypotLine_def honeypotHeader_def
          TAB_def LF_def)
  have run1: "fst (listWaitlistEntries exampleEnv ?files [] False) = Inr [?wh, ?l3, ?l1, ?l2]"
    by (simp only: run st q1 fst_conv)
  have run2: "fst (listWaitlistEntries exampleEnv ?files [] True) = Inr [?hh, ?h4, ?h5]"
    by (simp only: run st q2 fst_conv)
  note full = listWaitlistEntries_ordered [OF s w h]
  note none = listWaitlistEntries_ordered [OF s0 w0 h0]
  from f none [where honeypotOnly = False]
  obtain out1 where o1: "fst (listWaitlistEntries exampleEnv ?empty [] False) = Inr out1"
    by blast
  from f none [where honeypotOnly = True]
  obtain out2 where o2: "fst (listWaitlistEntries exampleEnv ?empty [] True) = Inr out2"
    by blast
  from o1 none [of out1] have "out1 = [waitlistHeader, waitlistPlaceholder]"
    by simp
  then have e1: "out1 = [?wh, ''(no entries)'' @ [CHR 0x09, CHR 0x09] @ [CHR 0x0A]]"
    by (simp add: waitlistHeader_def waitlistPlaceholder_def TAB_def LF_def)
  from o2 none [of out2] have "out2 = [honeypotHeader, honeypotPlaceholder]"
    by simp
  then have e2: "out2 = [?hh, ''(no honeypot entries)'' @ [CHR 0x09, CHR 0x09, CHR 0x09] @ [CHR 0x0A]]"
    by (simp add: honeypotHeader_def honeypotPlaceholder_def TAB_def LF_def)
  from run1 run2 o1 o2 e1 e2 full [of "[?wh, ?l3, ?l1, ?l2]"]
  show ?thesis by blast
qed

text \<open>
  C8, as stated, has the listing succeed on a path where no database file exists yet.
  For an ordinary path the routine first asks the file system: with no file under
  \<^verbatim>\<open>new.db\<close> it returns the error \<^verbatim>\<open>database file "new.db" not found\<close>, writes
  nothing, opens no connection and creates no file.
\<close>

theorem listWaitlistEntries_missing_file:
  "resolveDatabasePath exampleEnv ''new.db'' = ''new.db''
   \<and> fst (listWaitlistEntries exampleEnv Map.empty ''new.db'' False)
       = Inl (DatabaseFileNotFound ''new.db'')
   \<and> fst (listWaitlistEntries exampleEnv Map.empty ''new.db'' True)
       = Inl (DatabaseFileNotFound ''new.db'')
   \<and> snd (listWaitlistEntries exampleEnv Map.empty ''new.db'' False) ''new.db'' = None"
  by (simp add: listWaitlistEntries_def resolveDatabasePath_def exampleEnv_def)

text \<open>
  C8, amended.  With no storage operation failing:
  \<^item> for an ordinary path (neither \<^verbatim>\<open>:memory:\<close> nor a \<^verbatim>\<open>file:\<close> name) under which no
    file exists, the listing fails with \<^verbatim>\<open>database file not found\<close> and leaves the
    files as they are;
  \<^item> for every other path the connection is opened and the schema statement is run
    before the query: the query reads the initialized database, in which both tables
    exist, that database is what is stored under the path afterwards, and the listing
    succeeds;
  \<^item> in particular it prints the header and the placeholder for an existing file
    without tables, for a \<^verbatim>\<open>file:\<close> name without a file, and for \<^verbatim>\<open>:memory:\<close>.
\<close>

theorem listWaitlistEntries_initializes:
  assumes "dbPath = resolveDatabasePath e override"
    and "fault e = (\<lambda>op. None)"
  shows
   "(dbPath \<noteq> '':memory:'' \<and> \<not> HasPrefix dbPath ''file:'' \<and> files dbPath = None \<longrightarrow>
       listWaitlistEntries e files override honeypotOnly
         = (Inl (DatabaseFileNotFound dbPath), files))
  \<and> (dbPath = '':memory:'' \<or> HasPrefix dbPath ''file:'' \<or> files dbPath \<noteq> None \<longrightarrow>
       listWaitlistEntries e files override honeypotOnly
         = (queryAndPrint e (execSchema (openDatabase files dbPath)) honeypotOnly,
            storeDatabase files dbPath (execSchema (openDatabase files dbPath)))
       \<and> (\<exists>out. queryAndPrint e (execSchema (openDatabase files dbPath)) honeypotOnly = Inr out)
       \<and> waitlist (execSchema (openDatabase files dbPath)) \<noteq> None
       \<and> waitlist_honeypot (execSchema (openDatabase files dbPath)) \<noteq> None)
  \<and> (dbPath = '':memory:'' \<or> (HasPrefix dbPath ''file:'' \<and> files dbPath = None)
        \<or> files dbPath = Some emptyDatabase \<longrightarrow>
       fst (listWaitlistEntries e files override honeypotOnly)
         = Inr (if honeypotOnly then [honeypotHeader, honeypotPlaceholder]
                else [waitlistHeader, waitlistPlaceholder]))"
proof (intro conjI impI)
  assume "dbPath \<noteq> '':memory:'' \<and> \<not> HasPrefix dbPath ''file:'' \<and> files dbPath = None"
  with assms show "listWaitlistEntries e files override honeypotOnly
         = (Inl (DatabaseFileNotFound dbPath), files)"
    by (simp add: listWaitlistEntries_def)
next
  assume a: "dbPath = '':memory:'' \<or> HasPrefix dbPath ''file:'' \<or> files dbPath \<noteq> None"
  from listWaitlistEntries_no_fault [where files = files, OF assms(2) assms(1) a]
  show "listWaitlistEntries e files override honeypotOnly
         = (queryAndPrint e (execSchema (openDatabase files dbPath)) honeypotOnly,
            storeDatabase files dbPath (execSchema (openDatabase files dbPath)))" .
  from queryAndPrint_no_fault [OF assms(2)]
  show "\<exists>out. queryAndPrint e (execSchema (openDatabase files dbPath)) honeypotOnly = Inr out" .
  show "waitlist (execSchema (openDatabase files dbPath)) \<noteq> None"
    by (simp add: waitlist_execSchema)
  show "waitlist_honeypot (execSchema (openDatabase files dbPath)) \<noteq> None"
    by (simp add: honeypot_execSchema)
next
  assume a: "dbPath = '':memory:'' \<or> (HasPrefix dbPath ''file:'' \<and> files dbPath = None)
        \<or> files dbPath = Some emptyDatabase"
  then have e: "openDatabase files dbPath = emptyDatabase"
    by (auto simp add: openDatabase_def)
  from a have "dbPath = '':memory:'' \<or> HasPrefix dbPath ''file:'' \<or> files dbPath \<noteq> None"
    by auto
  from listWaitlistEntries_no_fault [where files = files, OF assms(2) assms(1) this] e assms(2)
  show "fst (listWaitlistEntries e files override honeypotOnly)
         = Inr (if honeypotOnly then [honeypotHeader, honeypotPlaceholder]
                else [waitlistHeader, waitlistPlaceholder])"
    by (simp add: queryAndPrint_def queryHoneypot_def queryWaitlist_def execSchema_def
          emptyDatabase_def printRows_no_fault)
qed

text \<open>
  A file created empty (as \<^verbatim>\<open>createDemoDatabase\<close> leaves it) is listed with the
  placeholder and holds both tables afterwards; a path without a file is refused.
\<close>

theorem listWaitlistEntries_initializes_witness:
  "listWaitlistEntries exampleEnv Map.empty ''new.db'' True
     = (Inl (DatabaseFileNotFound ''new.db''), Map.empty)
   \<and> fst (listWaitlistEntries exampleEnv [''demo.db'' \<mapsto> emptyDatabase] ''demo.db'' True)
     = Inr [honeypotHeader, honeypotPlaceholder]
   \<and> snd (listWaitlistEntries exampleEnv [''demo.db'' \<mapsto> emptyDatabase] ''demo.db'' True) ''demo.db''
     = Some readyDatabase
   \<and> fst (listWaitlistEntries exampleEnv Map.empty '':memory:'' False)
     = Inr [waitlistHeader, waitlistPlaceholder]"
proof -
  have p: "''new.db'' = resolveDatabasePath exampleEnv ''new.db''"
      "''demo.db'' = resolveDatabasePath exampleEnv ''demo.db''"
      "'':memory:'' = resolveDatabasePath exampleEnv '':memory:''"
    by (simp_all add: resolveDatabasePath_def)
  have f: "fault exampleEnv = (\<lambda>op. None)"
    by (simp add: exampleEnv_def)
  have c1: "''new.db'' \<noteq> '':memory:'' \<and> \<not> HasPrefix ''new.db'' ''file:''
      \<and> (Map.empty :: string \<rightharpoonup> database) ''new.db'' = None"
    by simp
  have c2: "[''demo.db'' \<mapsto> emptyDatabase] ''demo.db'' = Some emptyDatabase"
    by simp
  from c1 listWaitlistEntries_initializes [OF p(1) f, where files = Map.empty and honeypotOnly = True]
  have 1: "listWaitlistEntries exampleEnv Map.empty ''new.db'' True
     = (Inl (DatabaseFileNotFound ''new.db''), Map.empty)"
    by blast
  note demo = listWaitlistEntries_initializes
    [OF p(2) f, where files = "[''demo.db'' \<mapsto> emptyDatabase]" and honeypotOnly = True]
  from c2 demo
  have "fst (listWaitlistEntries exampleEnv [''demo.db'' \<mapsto> emptyDatabase] ''demo.db'' True)
     = Inr (if True then [honeypotHeader, honeypotPlaceholder]
            else [waitlistHeader, waitlistPlaceholder])"
    by blast
  then have 2: "fst (listWaitlistEntries exampleEnv [''demo.db'' \<mapsto> emptyDatabase] ''demo.db'' True)
     = Inr [honeypotHeader, honeypotPlaceholder]"
    by simp
  from c2 have "[''demo.db'' \<mapsto> emptyDatabase] ''demo.db'' \<noteq> None"
    by simp
  with demo
  have 3: "listWaitlistEntries exampleEnv [''demo.db'' \<mapsto> emptyDatabase] ''demo.db'' True
         = (queryAndPrint exampleEnv (execSchema (openDatabase [''demo.db'' \<mapsto> emptyDatabase] ''demo.db'')) True,
            storeDatabase [''demo.db'' \<mapsto> emptyDatabase] ''demo.db''
              (execSchema (openDatabase [''demo.db'' \<mapsto> emptyDatabase] ''demo.db'')))"
    by blast
  from 3 have 4: "snd (listWaitlistEntries exampleEnv [''demo.db'' \<mapsto> emptyDatabase] ''demo.db'' True) ''demo.db''
     = Some readyDatabase"
    by (simp add: storeDatabase_def openDatabase_def readyDatabase_def)
  from listWaitlistEntries_initializes [OF p(3) f, where files = Map.empty and honeypotOnly = False]
  have "fst (listWaitlistEntries exampleEnv Map.empty '':memory:'' False)
     = Inr (if False then [honeypotHeader, honeypotPlaceholder]
            else [waitlistHeader, waitlistPlaceholder])"
    by blast
  then have 5: "fst (listWaitlistEntries exampleEnv Map.empty '':memory:'' False)
     = Inr [waitlistHeader, waitlistPlaceholder]"
    by simp
  from 1 2 4 5 show ?thesis by blast
qed

end
